theory Spec2Isabelle
  imports Main "HOL-Library.Word"
begin

section \<open>The HTTP-over-tunnel proxy of rttys (http.go)\<close>

subsection \<open>Bytes, addresses, and the shared state\<close>

type_synonym byte = "8 word"

text \<open>\<^verbatim>\<open>net.TCPAddr\<close>: the IP is a byte slice (4 or 16 bytes for real sockets), the port an int.\<close>

record TCPAddr =
  IP :: "byte list"
  Port :: int

text \<open>\<^verbatim>\<open>type httpResp struct { data []byte; dev client.Client }\<close>; of the client only
  \<^verbatim>\<open>DeviceID()\<close> is used.\<close>

record httpResp =
  resp_data :: "byte list"
  resp_dev :: string

text \<open>\<^verbatim>\<open>type httpReq struct { devid string; data []byte }\<close>\<close>

record httpReq =
  devid :: string
  data :: "byte list"

text \<open>Every effect the code has on the outside world, in program order: calls on a
  \<^verbatim>\<open>net.Conn\<close> (named by a handle), operations on the two \<^verbatim>\<open>sync.Map\<close> registries,
  closing a channel, and a send on \<^verbatim>\<open>brk.httpReq\<close>.\<close>

datatype event =
    ConnClose nat
  | ConnWrite nat "byte list"
  | ConsStore string "byte list" nat
  | ConsDelete string "byte list"
  | SessStore string nat
  | SessDelete string
  | ChanClose nat
  | SinkPush httpReq

text \<open>\<^verbatim>\<open>httpProxyCons\<close> maps a device id to a table from \<^verbatim>\<open>string(srcAddr)\<close> to the connection;
  \<^verbatim>\<open>httpProxySessions\<close> maps a session id to its channel. Channels are handles; \<open>chanClosed\<close>
  records which have been closed and \<open>nextChan\<close> is the next handle \<^verbatim>\<open>make\<close> returns.\<close>

record state =
  httpProxyCons :: "string \<rightharpoonup> (byte list \<rightharpoonup> nat)"
  httpProxySessions :: "string \<rightharpoonup> nat"
  chanClosed :: "nat \<Rightarrow> bool"
  nextChan :: nat
  trace :: "event list"

datatype error = SliceBoundsOutOfRange | CloseOfClosedChannel

definition emit :: "event \<Rightarrow> state \<Rightarrow> state" where
  "emit e st = st\<lparr>trace := trace st @ [e]\<rparr>"

subsection \<open>\<^verbatim>\<open>handleHttpProxyResp\<close>\<close>

text \<open>\<^verbatim>\<open>addr := data[:18]; data = data[18:]\<close>: when \<^verbatim>\<open>len(data) < 18\<close> one of the two slice
  expressions panics (the first when the capacity is below 18 too, the second otherwise), so the
  pair is one fallible step here.\<close>

definition handleHttpProxyResp :: "httpResp \<Rightarrow> state \<Rightarrow> error + state" where
  "handleHttpProxyResp resp st =
     (if length (resp_data resp) < 18 then Inl SliceBoundsOutOfRange
      else
        let addr = take 18 (resp_data resp);
            data = drop 18 (resp_data resp)
        in case httpProxyCons st (resp_dev resp) of
             None \<Rightarrow> Inr st
           | Some cons \<Rightarrow>
               (case cons addr of
                  None \<Rightarrow> Inr st
                | Some c \<Rightarrow>
                    if length data = 0 then Inr (emit (ConnClose c) st)
                    else Inr (emit (ConnWrite c data) st)))"

subsection \<open>\<^verbatim>\<open>tcpAddr2Bytes\<close>\<close>

text \<open>\<^verbatim>\<open>uint16(x)\<close> of an int keeps the low 16 bits; \<^verbatim>\<open>binary.BigEndian.PutUint16\<close> stores the
  high byte first.\<close>

definition uint16 :: "int \<Rightarrow> 16 word" where
  "uint16 x = word_of_int x"

definition PutUint16 :: "16 word \<Rightarrow> byte list" where
  "PutUint16 v = [ucast (drop_bit 8 v), ucast v]"

text \<open>\<^verbatim>\<open>copy(dst, src)\<close> into a zeroed buffer of \<open>n\<close> bytes: the first \<open>min n (length src)\<close>
  bytes of \<open>src\<close>, the rest stays zero.\<close>

definition copy_into_zeroed :: "nat \<Rightarrow> byte list \<Rightarrow> byte list" where
  "copy_into_zeroed n src = take n src @ replicate (n - length src) 0"

definition tcpAddr2Bytes :: "TCPAddr \<Rightarrow> byte list" where
  "tcpAddr2Bytes addr = PutUint16 (uint16 (Port addr)) @ copy_into_zeroed 16 (IP addr)"

text \<open>\<^verbatim>\<open>net.IP.To16\<close> of the Go library: the 16-byte form of an address (an IPv4 address
  becomes the IPv4-mapped one).\<close>

definition v4InV6Prefix :: "byte list" where
  "v4InV6Prefix = [0, 0, 0, 0, 0, 0, 0, 0, 0, 0, 0xff, 0xff]"

definition To16 :: "byte list \<Rightarrow> byte list option" where
  "To16 ip = (if length ip = 4 then Some (v4InV6Prefix @ ip)
              else if length ip = 16 then Some ip
              else None)"

subsection \<open>The Go library functions the address validation calls\<close>

text \<open>These model functions of Go's standard library (\<^verbatim>\<open>net\<close>, \<^verbatim>\<open>net/netip\<close>, \<^verbatim>\<open>strconv\<close>,
  \<^verbatim>\<open>net/url\<close>), which are not part of the repository, as they are in the Go releases in
  which \<^verbatim>\<open>net.ParseIP\<close> is \<^verbatim>\<open>netip.ParseAddr\<close> (an octet with a leading zero is rejected),
  for a 64-bit platform. Strings are byte strings, as in Go. The text of an error message
  plays no role; the messages with a quoted bracket are written without the quotes.\<close>

definition isDigit :: "char \<Rightarrow> bool" where
  "isDigit c = (48 \<le> (of_char c :: nat) \<and> (of_char c :: nat) \<le> 57)"

definition digitVal :: "char \<Rightarrow> nat" where
  "digitVal c = of_char c - 48"

definition ishex :: "char \<Rightarrow> bool" where
  "ishex c = (let n = (of_char c :: nat) in
                (48 \<le> n \<and> n \<le> 57) \<or> (97 \<le> n \<and> n \<le> 102) \<or> (65 \<le> n \<and> n \<le> 70))"

definition unhex :: "char \<Rightarrow> nat" where
  "unhex c = (let n = (of_char c :: nat) in
                if 48 \<le> n \<and> n \<le> 57 then n - 48
                else if 97 \<le> n \<and> n \<le> 102 then n - 97 + 10
                else if 65 \<le> n \<and> n \<le> 70 then n - 65 + 10
                else 0)"

definition IndexByte :: "string \<Rightarrow> char \<Rightarrow> nat option" where
  "IndexByte s c = (if c \<in> set s then Some (length (takeWhile (\<lambda>x. x \<noteq> c) s)) else None)"

definition LastIndexByte :: "string \<Rightarrow> char \<Rightarrow> nat option" where
  "LastIndexByte s c =
     (if c \<in> set s then Some (length s - 1 - length (takeWhile (\<lambda>x. x \<noteq> c) (rev s))) else None)"

text \<open>\<^verbatim>\<open>net.SplitHostPort\<close>. The port starts after the last colon; a host in brackets must
  end just before that colon; an unbracketed host has no colon of its own.\<close>

definition SplitHostPort :: "string \<Rightarrow> string + (string \<times> string)" where
  "SplitHostPort hostport =
     (case LastIndexByte hostport CHR '':'' of
        None \<Rightarrow> Inl ''missing port in address''
      | Some i \<Rightarrow>
          let bracket =
            (if hostport ! 0 = CHR ''[''
             then (case IndexByte hostport CHR '']'' of
                     None \<Rightarrow> Inl ''missing ] in address''
                   | Some e \<Rightarrow>
                       if e + 1 = length hostport then Inl ''missing port in address''
                       else if e + 1 = i then Inr (take (e - 1) (drop 1 hostport), 1, e + 1)
                       else if hostport ! (e + 1) = CHR '':'' then Inl ''too many colons in address''
                       else Inl ''missing port in address'')
             else if CHR '':'' \<in> set (take i hostport) then Inl ''too many colons in address''
             else Inr (take i hostport, 0, 0))
          in case bracket of
               Inl e \<Rightarrow> Inl e
             | Inr (host, j, k) \<Rightarrow>
                 if CHR ''['' \<in> set (drop j hostport) then Inl ''unexpected [ in address''
                 else if CHR '']'' \<in> set (drop k hostport) then Inl ''unexpected ] in address''
                 else Inr (host, drop (i + 1) hostport))"

text \<open>\<^verbatim>\<open>netip.parseIPv4Fields\<close>: the loop over the characters. \<open>prev\<close> is the character before
  the current one (\<open>None\<close> at index 0), which is what the tests \<^verbatim>\<open>i == 0\<close> and
  \<^verbatim>\<open>s[i-1] == '.'\<close> read; \<^verbatim>\<open>i == len(s)-1\<close> is an empty rest.\<close>

fun parseIPv4Fields_loop ::
  "string \<Rightarrow> char option \<Rightarrow> nat \<Rightarrow> nat \<Rightarrow> nat \<Rightarrow> byte list \<Rightarrow> byte list option" where
  "parseIPv4Fields_loop [] prev val pos digLen flds =
     (if pos < 3 then None else Some (flds[3 := word_of_nat val]))"
| "parseIPv4Fields_loop (c # cs) prev val pos digLen flds =
     (if isDigit c then
        (if digLen = 1 \<and> val = 0 then None
         else let val' = val * 10 + digitVal c in
           if val' > 255 then None
           else parseIPv4Fields_loop cs (Some c) val' pos (digLen + 1) flds)
      else if c = CHR ''.'' then
        (if prev = None \<or> cs = [] \<or> prev = Some CHR ''.'' then None
         else if pos = 3 then None
         else parseIPv4Fields_loop cs (Some c) 0 (pos + 1) 0 (flds[pos := word_of_nat val]))
      else None)"

definition parseIPv4Fields :: "string \<Rightarrow> byte list option" where
  "parseIPv4Fields s = parseIPv4Fields_loop s None 0 0 0 [0, 0, 0, 0]"

text \<open>The hex-number loop of \<^verbatim>\<open>netip.parseIPv6\<close>: returns the offset and value where it
  stops, or fails on a fifth digit.\<close>

fun hexField :: "string \<Rightarrow> nat \<Rightarrow> nat \<Rightarrow> (nat \<times> nat) option" where
  "hexField [] off acc = Some (off, acc)"
| "hexField (c # cs) off acc =
     (if ishex c then
        (let acc' = acc * 16 + unhex c in
           if off > 3 then None
           else if acc' > 65535 then None
           else hexField cs (off + 1) acc')
      else Some (off, acc))"

text \<open>The main loop of \<^verbatim>\<open>netip.parseIPv6\<close> (\<^verbatim>\<open>for i < 16\<close>), returning the rest of the
  string, the index reached, the position of the ellipsis and the bytes so far.\<close>

function parseIPv6_loop ::
  "string \<Rightarrow> nat \<Rightarrow> nat option \<Rightarrow> byte list \<Rightarrow> (string \<times> nat \<times> nat option \<times> byte list) option" where
  "parseIPv6_loop s i ellipsis ip =
     (if \<not> i < 16 then Some (s, i, ellipsis, ip)
      else case hexField s 0 0 of
        None \<Rightarrow> None
      | Some (off, acc) \<Rightarrow>
          if off = 0 then None
          else if off < length s \<and> s ! off = CHR ''.'' then
            (if ellipsis = None \<and> i \<noteq> 12 then None
             else if i + 4 > 16 then None
             else case parseIPv4Fields s of
                    None \<Rightarrow> None
                  | Some f \<Rightarrow> Some ([], i + 4, ellipsis, take i ip @ f @ drop (i + 4) ip))
          else
            let ip' = ip[i := word_of_nat (acc div 256), i + 1 := word_of_nat acc];
                i' = i + 2;
                s' = drop off s
            in if s' = [] then Some (s', i', ellipsis, ip')
               else if s' ! 0 \<noteq> CHR '':'' then None
               else if length s' = 1 then None
               else let s'' = drop 1 s' in
                 if s'' ! 0 = CHR '':'' then
                   (if ellipsis \<noteq> None then None
                    else if drop 1 s'' = [] then Some ([], i', Some i', ip')
                    else parseIPv6_loop (drop 1 s'') i' (Some i') ip')
                 else parseIPv6_loop s'' i' ellipsis ip')"
  by pat_completeness auto
termination
  by (relation "measure (\<lambda>(s, i, ellipsis, ip). 16 - i)") auto

declare parseIPv6_loop.simps [simp del]

text \<open>\<^verbatim>\<open>netip.parseIPv6\<close>, returning the 16 bytes and the zone. Expanding the ellipsis moves
  the bytes parsed after it to the end and zeroes the gap.\<close>

definition parseIPv6 :: "string \<Rightarrow> (byte list \<times> string) option" where
  "parseIPv6 inp =
     (let (s, zone, zoneOk) =
            (case IndexByte inp CHR ''%'' of
               None \<Rightarrow> (inp, [], True)
             | Some z \<Rightarrow> (take z inp, drop (z + 1) inp, drop (z + 1) inp \<noteq> []))
      in if \<not> zoneOk then None
         else
           let lead = (length s \<ge> 2 \<and> s ! 0 = CHR '':'' \<and> s ! 1 = CHR '':'');
               s1 = (if lead then drop 2 s else s);
               ellipsis = (if lead then Some 0 else None)
           in if lead \<and> s1 = [] then Some (replicate 16 0, zone)
              else case parseIPv6_loop s1 0 ellipsis (replicate 16 0) of
                None \<Rightarrow> None
              | Some (rest, i, ell, ip) \<Rightarrow>
                  if rest \<noteq> [] then None
                  else if i < 16 then
                    (case ell of
                       None \<Rightarrow> None
                     | Some e \<Rightarrow>
                         Some (take e ip @ replicate (16 - i) 0 @ take (i - e) (drop e ip), zone))
                  else if ell \<noteq> None then None
                  else Some (ip, zone))"

text \<open>\<^verbatim>\<open>netip.ParseAddr\<close> dispatches on the first of \<^verbatim>\<open>.\<close>, \<^verbatim>\<open>:\<close> and \<^verbatim>\<open>%\<close>;
  \<^verbatim>\<open>net.ParseIP\<close> rejects a zone and returns the 16-byte form.\<close>

fun ParseAddr_scan :: "string \<Rightarrow> string \<Rightarrow> (byte list \<times> string) option" where
  "ParseAddr_scan s [] = None"
| "ParseAddr_scan s (c # cs) =
     (if c = CHR ''.'' then map_option (\<lambda>f. (v4InV6Prefix @ f, [])) (parseIPv4Fields s)
      else if c = CHR '':'' then parseIPv6 s
      else if c = CHR ''%'' then None
      else ParseAddr_scan s cs)"

definition ParseIP :: "string \<Rightarrow> byte list option" where
  "ParseIP s = (case ParseAddr_scan s s of
                  None \<Rightarrow> None
                | Some (ip, zone) \<Rightarrow> if zone \<noteq> [] then None else Some ip)"

text \<open>\<^verbatim>\<open>net.IP.To4\<close>.\<close>

definition To4 :: "byte list \<Rightarrow> byte list option" where
  "To4 ip = (if length ip = 4 then Some ip
             else if length ip = 16 \<and> take 12 ip = v4InV6Prefix then Some (drop 12 ip)
             else None)"

text \<open>\<^verbatim>\<open>strconv.Atoi\<close> with its two paths: the fast one for strings shorter than 19 bytes,
  and \<^verbatim>\<open>ParseInt(s, 10, 0)\<close> over \<^verbatim>\<open>ParseUint\<close> otherwise, which saturates on overflow.\<close>

datatype NumError = ErrSyntax | ErrRange

fun Atoi_fast :: "string \<Rightarrow> nat \<Rightarrow> nat option" where
  "Atoi_fast [] n = Some n"
| "Atoi_fast (ch # cs) n = (if isDigit ch then Atoi_fast cs (n * 10 + digitVal ch) else None)"

definition maxUint64 :: nat where
  "maxUint64 = 2 ^ 64 - 1"

fun ParseUint_loop :: "string \<Rightarrow> nat \<Rightarrow> nat \<times> NumError option" where
  "ParseUint_loop [] n = (n, None)"
| "ParseUint_loop (c # cs) n =
     (if \<not> isDigit c then (0, Some ErrSyntax)
      else if n \<ge> maxUint64 div 10 + 1 then (maxUint64, Some ErrRange)
      else let n1 = n * 10 + digitVal c in
        if n1 > maxUint64 then (maxUint64, Some ErrRange)
        else ParseUint_loop cs n1)"

definition ParseUint :: "string \<Rightarrow> nat \<times> NumError option" where
  "ParseUint s = (if s = [] then (0, Some ErrSyntax) else ParseUint_loop s 0)"

definition ParseInt :: "string \<Rightarrow> int \<times> NumError option" where
  "ParseInt s =
     (if s = [] then (0, Some ErrSyntax)
      else
        let neg = (s ! 0 = CHR ''-'');
            s1 = (if s ! 0 = CHR ''+'' \<or> s ! 0 = CHR ''-'' then drop 1 s else s);
            (un, err) = ParseUint s1;
            cutoff = (2 :: nat) ^ 63
        in if err = Some ErrSyntax then (0, err)
           else if \<not> neg \<and> un \<ge> cutoff then (int cutoff - 1, Some ErrRange)
           else if neg \<and> un > cutoff then (- int cutoff, Some ErrRange)
           else (if neg then - int un else int un, None))"

definition Atoi :: "string \<Rightarrow> int \<times> NumError option" where
  "Atoi s =
     (if 0 < length s \<and> length s < 19 then
        (let signed = (s ! 0 = CHR ''-'' \<or> s ! 0 = CHR ''+'');
             s1 = (if signed then drop 1 s else s)
         in if signed \<and> length s1 < 1 then (0, Some ErrSyntax)
            else case Atoi_fast s1 0 of
                   None \<Rightarrow> (0, Some ErrSyntax)
                 | Some n \<Rightarrow> (if s ! 0 = CHR ''-'' then - int n else int n, None))
      else ParseInt s)"

text \<open>\<^verbatim>\<open>strconv.Itoa\<close> / \<^verbatim>\<open>%d\<close>: the decimal rendering of an int.\<close>

definition digits :: string where
  "digits = ''0123456789''"

function FormatUint :: "nat \<Rightarrow> string" where
  "FormatUint n = (if n < 10 then [digits ! n]
                   else FormatUint (n div 10) @ [digits ! (n mod 10)])"
  by pat_completeness auto
termination
  by (relation "measure (\<lambda>n. n)") auto

declare FormatUint.simps [simp del]

definition Itoa :: "int \<Rightarrow> string" where
  "Itoa i = (if i < 0 then CHR ''-'' # FormatUint (nat (- i)) else FormatUint (nat i))"

text \<open>\<^verbatim>\<open>url.QueryUnescape\<close>: \<^verbatim>\<open>%XX\<close> becomes the byte, \<^verbatim>\<open>+\<close> a space; a \<^verbatim>\<open>%\<close> not
  followed by two hex digits is an error, and the string returned with the error is empty.\<close>

fun unescape :: "string \<Rightarrow> string option" where
  "unescape [] = Some []"
| "unescape (c # cs) =
     (if c = CHR ''%'' then
        (case cs of
           h1 # h2 # rest \<Rightarrow>
             if ishex h1 \<and> ishex h2
             then map_option ((#) (char_of (unhex h1 * 16 + unhex h2))) (unescape rest)
             else None
         | _ \<Rightarrow> None)
      else if c = CHR ''+'' then map_option ((#) CHR '' '') (unescape cs)
      else map_option ((#) c) (unescape cs))"

definition QueryUnescape :: "string \<Rightarrow> string \<times> bool" where
  "QueryUnescape s = (case unescape s of None \<Rightarrow> ([], False) | Some t \<Rightarrow> (t, True))"

subsection \<open>\<^verbatim>\<open>httpProxyVaildAddr\<close> and \<^verbatim>\<open>genDestAddr\<close>\<close>

definition httpProxyVaildAddr :: "string \<Rightarrow> string + (byte list \<times> 16 word)" where
  "httpProxyVaildAddr addr =
     (let (ips, ports) = (case SplitHostPort addr of
                            Inl err \<Rightarrow> (addr, ''80'')
                          | Inr (h, p) \<Rightarrow> (h, p))
      in case ParseIP ips of
           None \<Rightarrow> Inl ''invalid IPv4 Addr''
         | Some ip \<Rightarrow>
             (case To4 ip of
                None \<Rightarrow> Inl ''invalid IPv4 Addr''
              | Some ip4 \<Rightarrow> Inr (ip4, uint16 (fst (Atoi ports)))))"

text \<open>The \<^verbatim>\<open>nil\<close> slice returned on error is the empty list: appended to a message it adds
  nothing.\<close>

definition genDestAddr :: "string \<Rightarrow> byte list" where
  "genDestAddr addr =
     (case httpProxyVaildAddr addr of
        Inl err \<Rightarrow> []
      | Inr (destIP, destPort) \<Rightarrow> take 4 (copy_into_zeroed 6 destIP) @ PutUint16 destPort)"

subsection \<open>Channels\<close>

text \<open>\<^verbatim>\<open>make(chan struct{})\<close> returns a new open channel; \<^verbatim>\<open>close\<close> of a closed channel
  panics.\<close>

definition makeChan :: "state \<Rightarrow> nat \<times> state" where
  "makeChan st =
     (nextChan st,
      st\<lparr>nextChan := Suc (nextChan st), chanClosed := (chanClosed st)(nextChan st := False)\<rparr>)"

definition closeChan :: "nat \<Rightarrow> state \<Rightarrow> error + state" where
  "closeChan ch st =
     (if chanClosed st ch then Inl CloseOfClosedChannel
      else Inr (emit (ChanClose ch) (st\<lparr>chanClosed := (chanClosed st)(ch := True)\<rparr>)))"

subsection \<open>\<^verbatim>\<open>HttpProxyWriter\<close>\<close>

text \<open>Of \<^verbatim>\<open>*device\<close> the code reads \<^verbatim>\<open>id\<close> and \<^verbatim>\<open>proto\<close>. The writer's \<^verbatim>\<open>br\<close> field is
  the broker whose \<^verbatim>\<open>httpReq\<close> channel receives the messages: the sends are the \<open>SinkPush\<close>
  events of the trace.\<close>

record device =
  dev_id :: string
  dev_proto :: nat

record HttpProxyWriter =
  destAddr :: "byte list"
  srcAddr :: "byte list"
  hostHeaderRewrite :: string
  dev :: device
  https :: bool

definition HttpProxyWriter_Write :: "HttpProxyWriter \<Rightarrow> byte list \<Rightarrow> state \<Rightarrow> state" where
  "HttpProxyWriter_Write rw p st =
     (let msg0 = (if dev_proto (dev rw) > 3
                  then (if https rw then [1] else [0])
                  else []);
          msg = msg0 @ srcAddr rw @ destAddr rw @ p
      in emit (SinkPush \<lparr>devid = dev_id (dev rw), data = msg\<rparr>) st)"

text \<open>A parsed \<^verbatim>\<open>*http.Request\<close>, as far as the code looks at it: its cookies in header
  order (\<^verbatim>\<open>req.Cookie\<close> returns the first of a name), the value of \<^verbatim>\<open>Header.Get("Upgrade")\<close>,
  and \<open>req_wire\<close>, the chunks that \<^verbatim>\<open>req.Write(w)\<close> hands to \<^verbatim>\<open>w.Write\<close> for a given
  \<^verbatim>\<open>req.Host\<close> (the serialisation is \<^verbatim>\<open>net/http\<close>'s).\<close>

record request =
  req_cookies :: "(string \<times> string) list"
  req_upgrade :: string
  req_wire :: "string \<Rightarrow> byte list list"

definition Cookie :: "request \<Rightarrow> string \<Rightarrow> string option" where
  "Cookie req name = map_of (req_cookies req) name"

definition HttpProxyWriter_WriteRequest :: "HttpProxyWriter \<Rightarrow> request \<Rightarrow> state \<Rightarrow> state" where
  "HttpProxyWriter_WriteRequest rw req st =
     fold (HttpProxyWriter_Write rw) (req_wire req (hostHeaderRewrite rw)) st"

subsection \<open>\<^verbatim>\<open>doHttpProxy\<close>\<close>

text \<open>The accepted connection: its handle, its remote address, and what it delivers: the
  requests that successive \<^verbatim>\<open>http.ReadRequest(br)\<close> calls parse before the first one that
  fails, and the chunks \<^verbatim>\<open>b[:n]\<close> that successive \<^verbatim>\<open>c.Read(b)\<close> calls return before the
  first error. Both scripts are finite: the loops of the handler end when, and only when, a
  read fails.\<close>

record netConn =
  conn_handle :: nat
  RemoteAddr :: TCPAddr
  conn_requests :: "request list"
  conn_reads :: "byte list list"

record config =
  HttpProxyRedirURL :: string
  HttpProxyProtocol :: string
  HttpProxyPort :: int

record broker =
  cfg :: config
  devices :: "string \<rightharpoonup> device"

text \<open>The goroutine started at line 164, as data: the session's channel \<open>v\<close>, the handler's
  \<open>exit\<close> channel, and the registry key and connection it captured.\<close>

record watcher =
  w_cancel :: nat
  w_exit :: nat
  w_devid :: string
  w_srcAddr :: "byte list"
  w_conn :: nat

text \<open>The two relay loops. Each ends at the failing read with \<^verbatim>\<open>close(exit); return\<close>.\<close>

fun websocketLoop ::
  "string \<Rightarrow> byte list \<Rightarrow> byte list \<Rightarrow> nat \<Rightarrow> byte list list \<Rightarrow> state \<Rightarrow> error + state" where
  "websocketLoop did src dst exit [] st = closeChan exit st"
| "websocketLoop did src dst exit (b # bs) st =
     websocketLoop did src dst exit bs (emit (SinkPush \<lparr>devid = did, data = src @ dst @ b\<rparr>) st)"

fun pipelineLoop :: "HttpProxyWriter \<Rightarrow> nat \<Rightarrow> request list \<Rightarrow> state \<Rightarrow> error + state" where
  "pipelineLoop hpw exit [] st = closeChan exit st"
| "pipelineLoop hpw exit (req # reqs) st =
     pipelineLoop hpw exit reqs (HttpProxyWriter_WriteRequest hpw req st)"

text \<open>\<^verbatim>\<open>httpProxyCons.LoadOrStore(devid, &sync.Map{})\<close> followed by \<^verbatim>\<open>cons.Store\<close>.\<close>

definition registerCon :: "string \<Rightarrow> byte list \<Rightarrow> nat \<Rightarrow> state \<Rightarrow> state" where
  "registerCon did src c st =
     (let cons = (case httpProxyCons st did of None \<Rightarrow> Map.empty | Some t \<Rightarrow> t)
      in emit (ConsStore did src c)
           (st\<lparr>httpProxyCons := (httpProxyCons st)(did \<mapsto> cons(src \<mapsto> c))\<rparr>))"

text \<open>Lines 141 to 145: the scheme is https exactly when the \<^verbatim>\<open>rtty-http-proto\<close> cookie
  is present with the value \<^verbatim>\<open>https\<close>. Lines 147 to 151: the destination is the unescaped
  \<^verbatim>\<open>rtty-http-destaddr\<close> cookie (the empty string when unescaping fails), and
  \<^verbatim>\<open>localhost\<close> without the cookie.\<close>

definition cookieHttps :: "request \<Rightarrow> bool" where
  "cookieHttps req = (Cookie req ''rtty-http-proto'' = Some ''https'')"

definition cookieDestAddr :: "request \<Rightarrow> string" where
  "cookieDestAddr req = (case Cookie req ''rtty-http-destaddr'' of
                           None \<Rightarrow> ''localhost''
                         | Some v \<Rightarrow> fst (QueryUnescape v))"

text \<open>The handler returns the state it leaves and the watcher goroutine it started, if any.
  Every return runs the deferred \<^verbatim>\<open>c.Close()\<close>.\<close>

definition doHttpProxy :: "broker \<Rightarrow> netConn \<Rightarrow> state \<Rightarrow> error + (state \<times> watcher option)" where
  "doHttpProxy brk c st =
     (let deferred = (\<lambda>s. emit (ConnClose (conn_handle c)) s) in
      case conn_requests c of
        [] \<Rightarrow> Inr (deferred st, None)
      | req # reqs \<Rightarrow>
      (case Cookie req ''rtty-http-devid'' of
        None \<Rightarrow> Inr (deferred st, None)
      | Some did \<Rightarrow>
      (case devices brk did of
        None \<Rightarrow> Inr (deferred st, None)
      | Some dv \<Rightarrow>
      (case Cookie req ''rtty-http-sid'' of
        None \<Rightarrow> Inr (deferred st, None)
      | Some sid \<Rightarrow>
          let is_https = cookieHttps req;
              host = cookieDestAddr req;
              dst = genDestAddr host;
              src = tcpAddr2Bytes (RemoteAddr c);
              st1 = registerCon did src (conn_handle c) st;
              (exit, st2) = makeChan st1
          in case httpProxySessions st2 sid of
               None \<Rightarrow> Inr (deferred st2, None)
             | Some v \<Rightarrow>
                 let w = \<lparr>w_cancel = v, w_exit = exit, w_devid = did, w_srcAddr = src,
                          w_conn = conn_handle c\<rparr>;
                     hpw = \<lparr>destAddr = dst, srcAddr = src, hostHeaderRewrite = host,
                            dev = dv, https = is_https\<rparr>;
                     st3 = HttpProxyWriter_WriteRequest hpw req st2;
                     looped = (if req_upgrade req = ''websocket''
                               then websocketLoop did src dst exit (conn_reads c) st3
                               else pipelineLoop hpw exit reqs st3)
                 in case looped of
                      Inl e \<Rightarrow> Inl e
                    | Inr st4 \<Rightarrow> Inr (deferred st4, Some w)))))"

text \<open>The watcher's body: a \<^verbatim>\<open>select\<close> over the two channels, then the removal of the
  registry entry. A case of the \<^verbatim>\<open>select\<close> can be taken once its channel is closed; with both
  closed either may be.\<close>

datatype select_case = CancelFired | ExitFired

definition watcher_after :: "select_case \<Rightarrow> watcher \<Rightarrow> state \<Rightarrow> state" where
  "watcher_after sc w st =
     (let st1 = (if sc = CancelFired then emit (ConnClose (w_conn w)) st else st)
      in case httpProxyCons st1 (w_devid w) of
           None \<Rightarrow> st1
         | Some cons \<Rightarrow>
             emit (ConsDelete (w_devid w) (w_srcAddr w))
               (st1\<lparr>httpProxyCons := (httpProxyCons st1)(w_devid w \<mapsto> cons(w_srcAddr w := None))\<rparr>))"

definition watcher_runs :: "watcher \<Rightarrow> state \<Rightarrow> state list" where
  "watcher_runs w st =
     (if chanClosed st (w_cancel w) then [watcher_after CancelFired w st] else []) @
     (if chanClosed st (w_exit w) then [watcher_after ExitFired w st] else [])"

subsection \<open>\<^verbatim>\<open>httpProxyRedirect\<close>\<close>

text \<open>What the handler reads from the \<^verbatim>\<open>gin.Context\<close>: the four path parameters, the
  request's \<^verbatim>\<open>Host\<close>, and the result of \<^verbatim>\<open>c.Cookie("rtty-http-sid")\<close> (\<open>None\<close> when it
  returns an error). What it gets from outside the repository: the result of
  \<^verbatim>\<open>url.Parse(rawPath)\<close> as \<^verbatim>\<open>(Path, RawQuery)\<close>, the Unix time, and the id that
  \<^verbatim>\<open>utils.GenUniqueID\<close> returns.\<close>

record ginContext =
  param_devid :: string
  param_proto :: string
  param_addr :: string
  param_path :: string
  request_host :: string
  cookie_sid :: "string option"

record outside =
  url_Parse :: "(string \<times> string) option"
  time_Now_Unix :: int
  GenUniqueID :: string

record response =
  status :: nat
  set_cookies :: "(string \<times> string) list"
  location :: string

definition bare_status :: "nat \<Rightarrow> response" where
  "bare_status n = \<lparr>status = n, set_cookies = [], location = []\<rparr>"

definition redirectLocation :: "config \<Rightarrow> string \<Rightarrow> string \<times> string \<Rightarrow> int \<Rightarrow> string" where
  "redirectLocation cf reqhost path now =
     (let loc0 = HttpProxyRedirURL cf;
          loc1 =
            (if loc0 = [] then
               (let host = (case SplitHostPort reqhost of
                              Inl err \<Rightarrow> reqhost
                            | Inr (h, p) \<Rightarrow> h);
                    l = (if HttpProxyProtocol cf \<noteq> []
                         then HttpProxyProtocol cf @ ''://'' @ host
                         else ''http://'' @ host)
                in if HttpProxyPort cf \<noteq> 80 then l @ '':'' @ Itoa (HttpProxyPort cf) else l)
             else loc0);
          loc2 = loc1 @ fst path @ ''?_='' @ Itoa now
      in if snd path \<noteq> [] then loc2 @ ''&'' @ snd path else loc2)"

text \<open>Lines 362 to 368: the session of the presented cookie, if stored, has its channel
  closed and is deleted.\<close>

definition invalidateSession :: "string option \<Rightarrow> state \<Rightarrow> error + state" where
  "invalidateSession cookie st =
     (case cookie of
        None \<Rightarrow> Inr st
      | Some sid \<Rightarrow>
          (case httpProxySessions st sid of
             None \<Rightarrow> Inr st
           | Some v \<Rightarrow>
               (case closeChan v st of
                  Inl e \<Rightarrow> Inl e
                | Inr st1 \<Rightarrow>
                    Inr (emit (SessDelete sid)
                           (st1\<lparr>httpProxySessions := (httpProxySessions st1)(sid := None)\<rparr>)))))"

text \<open>Lines 370 to 372: a new id, a new channel, stored under the id.\<close>

definition createSession :: "string \<Rightarrow> state \<Rightarrow> state" where
  "createSession sid st =
     (let (ch, st1) = makeChan st
      in emit (SessStore sid ch)
           (st1\<lparr>httpProxySessions := (httpProxySessions st1)(sid \<mapsto> ch)\<rparr>))"

definition httpProxyRedirect ::
  "broker \<Rightarrow> outside \<Rightarrow> ginContext \<Rightarrow> state \<Rightarrow> error + (state \<times> response)" where
  "httpProxyRedirect br out c st =
     (case httpProxyVaildAddr (param_addr c) of
        Inl err \<Rightarrow> Inr (st, bare_status 400)
      | Inr ok \<Rightarrow>
      (case url_Parse out of
        None \<Rightarrow> Inr (st, bare_status 400)
      | Some path \<Rightarrow>
      (case devices br (param_devid c) of
        None \<Rightarrow> Inr (st, bare_status 404)
      | Some d \<Rightarrow>
          let loc = redirectLocation (cfg br) (request_host c) path (time_Now_Unix out)
          in case invalidateSession (cookie_sid c) st of
               Inl e \<Rightarrow> Inl e
             | Inr st1 \<Rightarrow>
                 let sid = GenUniqueID out;
                     st2 = createSession sid st1
                 in Inr (st2,
                         \<lparr>status = 302,
                          set_cookies = [(''rtty-http-sid'', sid),
                                         (''rtty-http-devid'', param_devid c),
                                         (''rtty-http-proto'', param_proto c),
                                         (''rtty-http-destaddr'', param_addr c)],
                          location = loc\<rparr>))))"

subsection \<open>Reading the state and the trace\<close>

text \<open>The Endpoint Registry entry for a device id and a source identifier.\<close>

definition conEntry :: "state \<Rightarrow> string \<Rightarrow> byte list \<Rightarrow> nat option" where
  "conEntry st did src = (case httpProxyCons st did of None \<Rightarrow> None | Some cons \<Rightarrow> cons src)"

text \<open>The outbound frame as the specification words it: an optional scheme flag, present
  exactly when the device's protocol version supports it, 1 for https and 0 for http, then
  the source identifier, the destination identifier and the payload.\<close>

definition spec_outboundFrame :: "bool \<Rightarrow> bool \<Rightarrow> byte list \<Rightarrow> byte list \<Rightarrow> byte list \<Rightarrow> byte list" where
  "spec_outboundFrame flagSupported isHttps src dst payload =
     (if flagSupported then [if isHttps then 1 else 0] else []) @ src @ dst @ payload"

subsection \<open>Concrete inputs\<close>

definition st_one_con :: state where
  "st_one_con = \<lparr>httpProxyCons = [''dev1'' \<mapsto> [replicate 18 7 \<mapsto> 5]],
     httpProxySessions = Map.empty, chanClosed = (\<lambda>_. False), nextChan = 0, trace = []\<rparr>"

definition brk_demo :: broker where
  "brk_demo = \<lparr>cfg = \<lparr>HttpProxyRedirURL = [], HttpProxyProtocol = [], HttpProxyPort = 5914\<rparr>,
     devices = [''dev3'' \<mapsto> \<lparr>dev_id = ''dev3'', dev_proto = 3\<rparr>,
                ''dev4'' \<mapsto> \<lparr>dev_id = ''dev4'', dev_proto = 4\<rparr>]\<rparr>"

definition st_sess :: state where
  "st_sess = \<lparr>httpProxyCons = Map.empty, httpProxySessions = [''sid1'' \<mapsto> 0],
     chanClosed = (\<lambda>_. False), nextChan = 1, trace = []\<rparr>"

text \<open>A request with the four cookies as the redirect handler sets them (the destination
  percent-encoded), serialised as the three bytes \<^verbatim>\<open>GET\<close>; and one without the destination
  cookie.\<close>

definition req_demo :: "string \<Rightarrow> string \<Rightarrow> string \<Rightarrow> request" where
  "req_demo did sid upg =
     \<lparr>req_cookies = [(''rtty-http-devid'', did), (''rtty-http-sid'', sid),
                     (''rtty-http-proto'', ''http''),
                     (''rtty-http-destaddr'', ''192.168.1.1%3A8080'')],
      req_upgrade = upg,
      req_wire = (\<lambda>host. [[71, 69, 84]])\<rparr>"

definition req_nodest :: request where
  "req_nodest =
     \<lparr>req_cookies = [(''rtty-http-devid'', ''dev3''), (''rtty-http-sid'', ''sid1'')],
      req_upgrade = [],
      req_wire = (\<lambda>host. [[71, 69, 84]])\<rparr>"

definition conn_demo :: "request list \<Rightarrow> byte list list \<Rightarrow> netConn" where
  "conn_demo rs bs = \<lparr>conn_handle = 9, RemoteAddr = \<lparr>IP = [10, 0, 0, 7], Port = 50000\<rparr>,
     conn_requests = rs, conn_reads = bs\<rparr>"

definition src_demo :: "byte list" where
  "src_demo = [195, 80, 10, 0, 0, 7, 0, 0, 0, 0, 0, 0, 0, 0, 0, 0, 0, 0]"

definition dst_demo :: "byte list" where
  "dst_demo = [192, 168, 1, 1, 31, 144]"

definition st_empty :: state where
  "st_empty = \<lparr>httpProxyCons = Map.empty, httpProxySessions = Map.empty,
     chanClosed = (\<lambda>_. False), nextChan = 0, trace = []\<rparr>"

definition out_demo :: "string \<Rightarrow> outside" where
  "out_demo sid = \<lparr>url_Parse = Some (''/index.html'', ''a=1''), time_Now_Unix = 1700000000,
     GenUniqueID = sid\<rparr>"

definition ctx_demo :: "string option \<Rightarrow> ginContext" where
  "ctx_demo ck = \<lparr>param_devid = ''dev3'', param_proto = ''http'',
     param_addr = ''192.168.1.1:8080'', param_path = ''/index.html?a=1'',
     request_host = ''broker.example:5913'', cookie_sid = ck\<rparr>"

subsection \<open>IPv4 literals\<close>

text \<open>The text of the IPv4 literal with the four given octets: dotted decimal.\<close>

definition ipv4Literal :: "nat \<Rightarrow> nat \<Rightarrow> nat \<Rightarrow> nat \<Rightarrow> string" where
  "ipv4Literal a b c d =
     FormatUint a @ ''.'' @ FormatUint b @ ''.'' @ FormatUint c @ ''.'' @ FormatUint d"

text \<open>The host that the validation hands to \<^verbatim>\<open>net.ParseIP\<close> (lines 290 to 296): the host
  of \<^verbatim>\<open>net.SplitHostPort\<close> when the input splits, the whole input otherwise.\<close>

definition hostPart :: "string \<Rightarrow> string" where
  "hostPart addr = (case SplitHostPort addr of Inl err \<Rightarrow> addr | Inr (h, p) \<Rightarrow> h)"

text \<open>A string is an IPv4 literal when it is the dotted-decimal text of four octets. It is
  the IPv6 literal of an IPv4-mapped address when it contains a colon, parses as an IP
  address, and the address has a 4-byte form (the address is \<^verbatim>\<open>::ffff:a.b.c.d\<close>).\<close>

definition isIPv4Literal :: "string \<Rightarrow> bool" where
  "isIPv4Literal h =
     (\<exists>a b c d. a < 256 \<and> b < 256 \<and> c < 256 \<and> d < 256 \<and> h = ipv4Literal a b c d)"

definition isMappedIPv6Literal :: "string \<Rightarrow> bool" where
  "isMappedIPv6Literal h =
     (CHR '':'' \<in> set h \<and> (case ParseIP h of None \<Rightarrow> False | Some ip \<Rightarrow> To4 ip \<noteq> None))"

section \<open>Properties\<close>

subsection \<open>Helper facts\<close>

lemma replicate_step: "replicate (numeral k) (b :: byte) = b # replicate (pred_numeral k) b"
  using replicate_Suc [of "pred_numeral k" b] by (simp only: numeral_eq_Suc)

lemma PutUint16_uint16: "PutUint16 (uint16 p) = [word_of_int (p div 256), word_of_int p]"
proof -
  have d: "p div 256 = drop_bit 8 p" by (simp add: drop_bit_eq_div)
  have "(ucast (drop_bit 8 (word_of_int p :: 16 word)) :: byte) = word_of_int (p div 256)"
    unfolding d by (rule bit_word_eqI) (simp add: bit_simps)
  moreover have "(ucast (word_of_int p :: 16 word) :: byte) = word_of_int p"
    by (rule bit_word_eqI) (simp add: bit_simps)
  ultimately show ?thesis by (simp add: PutUint16_def uint16_def)
qed

subsection \<open>Source identifier\<close>

text \<open>C7, as stated, fails: an IPv4 address that the \<^verbatim>\<open>TCPAddr\<close> holds in its 4-byte form
  (as Go does for a connection accepted on an IPv4 socket) is copied as it is and padded with
  twelve zero bytes on the right; its 16-byte form \<^verbatim>\<open>::ffff:192.168.1.1\<close> is not what the
  identifier carries.\<close>

theorem tcpAddr2Bytes_counterexample:
  "To16 [192, 168, 1, 1] = Some [0, 0, 0, 0, 0, 0, 0, 0, 0, 0, 255, 255, 192, 168, 1, 1] \<and>
   tcpAddr2Bytes \<lparr>IP = [192, 168, 1, 1], Port = 8080\<rparr> =
     [0x1f, 0x90, 192, 168, 1, 1, 0, 0, 0, 0, 0, 0, 0, 0, 0, 0, 0, 0] \<and>
   tcpAddr2Bytes \<lparr>IP = [192, 168, 1, 1], Port = 8080\<rparr> \<noteq>
     [0x1f, 0x90] @ the (To16 [192, 168, 1, 1])"
  by (simp add: tcpAddr2Bytes_def PutUint16_def uint16_def copy_into_zeroed_def To16_def
      v4InV6Prefix_def replicate_step)

text \<open>C7, amended: the source identifier is always exactly 18 bytes, the 2-byte big-endian
  port (the low 16 bits of the port) followed by the IP bytes as the address holds them, cut
  or zero-padded on the right to 16 bytes; when the address holds the IP in its 16-byte form,
  these 16 bytes are that form.\<close>

theorem tcpAddr2Bytes_layout:
  "length (tcpAddr2Bytes addr) = 18 \<and>
   take 2 (tcpAddr2Bytes addr) = [word_of_int (Port addr div 256), word_of_int (Port addr)] \<and>
   drop 2 (tcpAddr2Bytes addr) = take 16 (IP addr) @ replicate (16 - length (IP addr)) 0 \<and>
   (length (IP addr) = 16 \<longrightarrow>
      To16 (IP addr) = Some (IP addr) \<and> drop 2 (tcpAddr2Bytes addr) = IP addr)"
  by (simp add: tcpAddr2Bytes_def PutUint16_uint16 copy_into_zeroed_def To16_def)

theorem tcpAddr2Bytes_layout_witness:
  "length (v4InV6Prefix @ [10, 0, 0, 7]) = 16 \<and>
   tcpAddr2Bytes \<lparr>IP = v4InV6Prefix @ [10, 0, 0, 7], Port = 443\<rparr> =
     [1, 187, 0, 0, 0, 0, 0, 0, 0, 0, 0, 0, 255, 255, 10, 0, 0, 7]"
proof -
  let ?a = "\<lparr>IP = v4InV6Prefix @ [10, 0, 0, 7], Port = 443\<rparr>"
  have "tcpAddr2Bytes ?a = take 2 (tcpAddr2Bytes ?a) @ drop 2 (tcpAddr2Bytes ?a)"
    by simp
  also have "\<dots> = [1, 187, 0, 0, 0, 0, 0, 0, 0, 0, 0, 0, 255, 255, 10, 0, 0, 7]"
    using tcpAddr2Bytes_layout [of ?a] by (simp add: v4InV6Prefix_def)
  finally show ?thesis by (simp add: v4InV6Prefix_def)
qed

subsection \<open>Inbound dispatch\<close>

text \<open>C8: for an inbound frame made of an 18-byte source identifier and a payload, the
  handler does not fail; with no registry entry for the device and source it leaves the state
  as it is, whatever the payload; with an entry and an empty payload it closes the
  connection; otherwise it writes the payload, unchanged, to the connection.\<close>

theorem handleHttpProxyResp_dispatch:
  assumes "length sourceID = 18"
  shows "handleHttpProxyResp \<lparr>resp_data = sourceID @ payload, resp_dev = deviceID\<rparr> st =
           (case conEntry st deviceID sourceID of
              None \<Rightarrow> Inr st
            | Some c \<Rightarrow> if payload = [] then Inr (emit (ConnClose c) st)
                        else Inr (emit (ConnWrite c payload) st))"
  using assms
  by (simp add: handleHttpProxyResp_def conEntry_def split: option.splits)

theorem handleHttpProxyResp_dispatch_witness:
  "length (replicate 18 (7::byte)) = 18 \<and>
   handleHttpProxyResp \<lparr>resp_data = replicate 18 7 @ [1, 2], resp_dev = ''dev1''\<rparr> st_one_con =
     Inr (emit (ConnWrite 5 [1, 2]) st_one_con) \<and>
   handleHttpProxyResp \<lparr>resp_data = replicate 18 7 @ [], resp_dev = ''dev1''\<rparr> st_one_con =
     Inr (emit (ConnClose 5) st_one_con) \<and>
   handleHttpProxyResp \<lparr>resp_data = replicate 18 7 @ [1, 2], resp_dev = ''dev2''\<rparr> st_one_con =
     Inr st_one_con"
  using handleHttpProxyResp_dispatch [of "replicate 18 7" "[1, 2]" "''dev1''" st_one_con]
    handleHttpProxyResp_dispatch [of "replicate 18 7" "[]" "''dev1''" st_one_con]
    handleHttpProxyResp_dispatch [of "replicate 18 7" "[1, 2]" "''dev2''" st_one_con]
  by (simp add: conEntry_def st_one_con_def)

text \<open>C10: the handler panics on the slice bounds exactly when the delivered data is
  shorter than 18 bytes; it returns normally only under \<^verbatim>\<open>len(data) >= 18\<close>.\<close>

theorem handleHttpProxyResp_panics_iff:
  "(handleHttpProxyResp resp st = Inl SliceBoundsOutOfRange) = (length (resp_data resp) < 18)"
  by (simp add: handleHttpProxyResp_def Let_def split: option.splits)

theorem handleHttpProxyResp_panics_witness:
  "handleHttpProxyResp \<lparr>resp_data = [1, 2, 3], resp_dev = ''dev1''\<rparr> st_one_con =
     Inl SliceBoundsOutOfRange"
  using handleHttpProxyResp_panics_iff [of "\<lparr>resp_data = [1, 2, 3], resp_dev = ''dev1''\<rparr>" st_one_con]
  by simp

subsection \<open>The proxy connection handler\<close>

lemma Write_fold:
  "fold (HttpProxyWriter_Write rw) ps st =
     st\<lparr>trace := trace st @
        map (\<lambda>p. SinkPush \<lparr>devid = dev_id (dev rw),
                            data = (if dev_proto (dev rw) > 3 then (if https rw then [1] else [0]) else [])
                                   @ srcAddr rw @ destAddr rw @ p\<rparr>) ps\<rparr>"
  by (induction ps arbitrary: st) (simp_all add: HttpProxyWriter_Write_def emit_def)

lemma pipelineLoop_run:
  "\<not> chanClosed st exit \<Longrightarrow>
   pipelineLoop hpw exit reqs st =
     Inr (st\<lparr>chanClosed := (chanClosed st)(exit := True),
             trace := trace st @
               concat (map (\<lambda>r. map (\<lambda>p. SinkPush \<lparr>devid = dev_id (dev hpw),
                            data = (if dev_proto (dev hpw) > 3 then (if https hpw then [1] else [0]) else [])
                                   @ srcAddr hpw @ destAddr hpw @ p\<rparr>) (req_wire r (hostHeaderRewrite hpw))) reqs)
               @ [ChanClose exit]\<rparr>)"
  by (induction reqs arbitrary: st)
     (simp_all add: closeChan_def emit_def HttpProxyWriter_WriteRequest_def Write_fold)

lemma websocketLoop_run:
  "\<not> chanClosed st exit \<Longrightarrow>
   websocketLoop did src dst exit bs st =
     Inr (st\<lparr>chanClosed := (chanClosed st)(exit := True),
             trace := trace st @ map (\<lambda>b. SinkPush \<lparr>devid = did, data = src @ dst @ b\<rparr>) bs
               @ [ChanClose exit]\<rparr>)"
  by (induction bs arbitrary: st) (simp_all add: closeChan_def emit_def)

text \<open>Evaluation of the concrete inputs.\<close>

lemma QueryUnescape_demo: "QueryUnescape ''192.168.1.1%3A8080'' = (''192.168.1.1:8080'', True)"
  by (simp add: QueryUnescape_def ishex_def unhex_def char_of_def bit_Suc_0_iff)

lemma genDestAddr_demo: "genDestAddr ''192.168.1.1:8080'' = dst_demo"
  by (simp add: genDestAddr_def httpProxyVaildAddr_def SplitHostPort_def LastIndexByte_def
        IndexByte_def ParseIP_def parseIPv4Fields_def isDigit_def digitVal_def v4InV6Prefix_def
        To4_def Atoi_def copy_into_zeroed_def PutUint16_def uint16_def dst_demo_def)

lemma httpProxyVaildAddr_localhost: "httpProxyVaildAddr ''localhost'' = Inl ''invalid IPv4 Addr''"
  by (simp add: httpProxyVaildAddr_def SplitHostPort_def LastIndexByte_def ParseIP_def)

lemma genDestAddr_localhost: "genDestAddr ''localhost'' = []"
  by (simp add: genDestAddr_def httpProxyVaildAddr_localhost)

lemma tcpAddr2Bytes_demo: "tcpAddr2Bytes \<lparr>IP = [10, 0, 0, 7], Port = 50000\<rparr> = src_demo"
  by (simp add: tcpAddr2Bytes_def PutUint16_def uint16_def copy_into_zeroed_def replicate_step
      src_demo_def)

lemmas demo_eval =
  doHttpProxy_def brk_demo_def conn_demo_def req_demo_def req_nodest_def st_sess_def Cookie_def
  cookieHttps_def cookieDestAddr_def QueryUnescape_demo genDestAddr_demo tcpAddr2Bytes_demo
  genDestAddr_localhost
  Let_def registerCon_def makeChan_def emit_def HttpProxyWriter_WriteRequest_def
  HttpProxyWriter_Write_def closeChan_def conEntry_def

text \<open>C2, as stated, fails in both relay modes: when the loop ends, the handler closes its
  exit channel and returns; the sink has received the frames of the data read and nothing
  else. Here a WebSocket connection delivers one read and then fails, and a plain
  connection delivers a second request and then fails; in neither trace is there a frame
  with an empty payload.\<close>

theorem doHttpProxy_close_frame_counterexample:
  "trace (fst (projr (doHttpProxy brk_demo
      (conn_demo [req_demo ''dev3'' ''sid1'' ''websocket''] [[1, 2, 3]]) st_sess))) =
     [ConsStore ''dev3'' src_demo 9,
      SinkPush \<lparr>devid = ''dev3'', data = src_demo @ dst_demo @ [71, 69, 84]\<rparr>,
      SinkPush \<lparr>devid = ''dev3'', data = src_demo @ dst_demo @ [1, 2, 3]\<rparr>,
      ChanClose 1, ConnClose 9] \<and>
   trace (fst (projr (doHttpProxy brk_demo
      (conn_demo [req_demo ''dev3'' ''sid1'' [], req_demo ''dev3'' ''sid1'' []] []) st_sess))) =
     [ConsStore ''dev3'' src_demo 9,
      SinkPush \<lparr>devid = ''dev3'', data = src_demo @ dst_demo @ [71, 69, 84]\<rparr>,
      SinkPush \<lparr>devid = ''dev3'', data = src_demo @ dst_demo @ [71, 69, 84]\<rparr>,
      ChanClose 1, ConnClose 9]"
  by (simp add: demo_eval)

text \<open>C2, amended: for every proxy connection that passes the checks (a first request with
  the device and session cookies, a known device, a stored session), in both relay modes the
  handler returns, and what it has done is: the registration, one frame per chunk of the
  first request, then one frame per read (upgrade mode) or per chunk of each further request
  (pipelined mode), then the closing of its exit channel and of the connection. When the
  loop ends it pushes no frame: no zero-length-payload frame is emitted for the end of the
  connection.\<close>

theorem doHttpProxy_forwards_then_closes:
  assumes "conn_requests c = req # reqs"
    and "Cookie req ''rtty-http-devid'' = Some did"
    and "devices brk did = Some dv"
    and "Cookie req ''rtty-http-sid'' = Some sid"
    and "httpProxySessions st sid = Some v"
  shows "let src = tcpAddr2Bytes (RemoteAddr c);
             dst = genDestAddr (cookieDestAddr req);
             flag = (if dev_proto dv > 3 then (if cookieHttps req then [1] else [0]) else []);
             written = (\<lambda>r. map (\<lambda>p. SinkPush \<lparr>devid = dev_id dv, data = flag @ src @ dst @ p\<rparr>)
                               (req_wire r (cookieDestAddr req)));
             relayed = map (\<lambda>b. SinkPush \<lparr>devid = did, data = src @ dst @ b\<rparr>) (conn_reads c)
         in \<exists>st' w. doHttpProxy brk c st = Inr (st', Some w) \<and>
              trace st' = trace st @ [ConsStore did src (conn_handle c)] @ written req @
                (if req_upgrade req = ''websocket'' then relayed else concat (map written reqs)) @
                [ChanClose (nextChan st), ConnClose (conn_handle c)]"
  using assms
  by (simp add: doHttpProxy_def Let_def registerCon_def makeChan_def emit_def
      HttpProxyWriter_WriteRequest_def Write_fold pipelineLoop_run websocketLoop_run)

theorem doHttpProxy_forwards_then_closes_witness:
  "conn_requests (conn_demo [req_demo ''dev4'' ''sid1'' [], req_demo ''dev4'' ''sid1'' []] []) =
     req_demo ''dev4'' ''sid1'' [] # [req_demo ''dev4'' ''sid1'' []] \<and>
   Cookie (req_demo ''dev4'' ''sid1'' []) ''rtty-http-devid'' = Some ''dev4'' \<and>
   devices brk_demo ''dev4'' = Some \<lparr>dev_id = ''dev4'', dev_proto = 4\<rparr> \<and>
   Cookie (req_demo ''dev4'' ''sid1'' []) ''rtty-http-sid'' = Some ''sid1'' \<and>
   httpProxySessions st_sess ''sid1'' = Some 0 \<and>
   (\<exists>st' w. doHttpProxy brk_demo
        (conn_demo [req_demo ''dev4'' ''sid1'' [], req_demo ''dev4'' ''sid1'' []] []) st_sess =
          Inr (st', Some w) \<and>
      trace st' =
        [ConsStore ''dev4'' src_demo 9,
         SinkPush \<lparr>devid = ''dev4'', data = [0] @ src_demo @ dst_demo @ [71, 69, 84]\<rparr>,
         SinkPush \<lparr>devid = ''dev4'', data = [0] @ src_demo @ dst_demo @ [71, 69, 84]\<rparr>,
         ChanClose 1, ConnClose 9])"
proof -
  let ?r = "req_demo ''dev4'' ''sid1'' []"
  let ?c = "conn_demo [?r, ?r] []"
  have h1: "conn_requests ?c = ?r # [?r]" by (simp add: conn_demo_def)
  have h2: "Cookie ?r ''rtty-http-devid'' = Some ''dev4''" by (simp add: Cookie_def req_demo_def)
  have h3: "devices brk_demo ''dev4'' = Some \<lparr>dev_id = ''dev4'', dev_proto = 4\<rparr>"
    by (simp add: brk_demo_def)
  have h4: "Cookie ?r ''rtty-http-sid'' = Some ''sid1''" by (simp add: Cookie_def req_demo_def)
  have h5: "httpProxySessions st_sess ''sid1'' = Some 0" by (simp add: st_sess_def)
  have e1: "cookieDestAddr ?r = ''192.168.1.1:8080''"
    by (simp add: cookieDestAddr_def Cookie_def req_demo_def QueryUnescape_demo)
  have e2: "cookieHttps ?r = False" by (simp add: cookieHttps_def Cookie_def req_demo_def)
  have e3: "RemoteAddr ?c = \<lparr>IP = [10, 0, 0, 7], Port = 50000\<rparr>" "conn_handle ?c = 9"
    by (simp_all add: conn_demo_def)
  have e4: "req_wire ?r = (\<lambda>host. [[71, 69, 84]])" "req_upgrade ?r = []"
    by (simp_all add: req_demo_def)
  have e5: "trace st_sess = []" "nextChan st_sess = 1" by (simp_all add: st_sess_def)
  from doHttpProxy_forwards_then_closes [OF h1 h2 h3 h4 h5]
  have "\<exists>st' w. doHttpProxy brk_demo ?c st_sess = Inr (st', Some w) \<and>
      trace st' =
        [ConsStore ''dev4'' src_demo 9,
         SinkPush \<lparr>devid = ''dev4'', data = [0] @ src_demo @ dst_demo @ [71, 69, 84]\<rparr>,
         SinkPush \<lparr>devid = ''dev4'', data = [0] @ src_demo @ dst_demo @ [71, 69, 84]\<rparr>,
         ChanClose 1, ConnClose 9]"
    by (simp add: Let_def e1 e2 e3 e4 e5 genDestAddr_demo tcpAddr2Bytes_demo)
  with h1 h2 h3 h4 h5 show ?thesis by blast
qed

text \<open>What the watcher does once it runs: whichever case of its \<^verbatim>\<open>select\<close> is taken, the
  registry entry is gone afterwards, and the removal is the last thing it did.\<close>

lemma watcher_after_removes:
  "conEntry (watcher_after sc w st) (w_devid w) (w_srcAddr w) = None"
  by (simp add: watcher_after_def conEntry_def emit_def Let_def split: option.splits)

lemma watcher_after_trace:
  assumes "httpProxyCons st (w_devid w) \<noteq> None"
  shows "trace (watcher_after sc w st) =
           trace st @ (if sc = CancelFired then [ConnClose (w_conn w)] else []) @
           [ConsDelete (w_devid w) (w_srcAddr w)]"
  using assms by (auto simp: watcher_after_def emit_def Let_def split: option.splits)

text \<open>On the paths where the session is stored, the handler leaves the entry registered,
  its exit channel closed and a watcher started; the watcher can run, and each of its
  possible runs (the race between the session's channel and the exit channel included)
  removes the entry with exactly one \<^verbatim>\<open>Delete\<close>.\<close>

lemma doHttpProxy_served_entry_removed_once:
  assumes "conn_requests c = req # reqs"
    and "Cookie req ''rtty-http-devid'' = Some did"
    and "devices brk did = Some dv"
    and "Cookie req ''rtty-http-sid'' = Some sid"
    and "httpProxySessions st sid = Some v"
  shows "\<exists>st' w. doHttpProxy brk c st = Inr (st', Some w) \<and>
           conEntry st' did (tcpAddr2Bytes (RemoteAddr c)) = Some (conn_handle c) \<and>
           watcher_runs w st' \<noteq> [] \<and>
           (\<forall>st'' \<in> set (watcher_runs w st').
              conEntry st'' did (tcpAddr2Bytes (RemoteAddr c)) = None \<and>
              (\<exists>closes. set closes \<subseteq> {ConnClose (conn_handle c)} \<and>
                 trace st'' = trace st' @ closes @
                   [ConsDelete did (tcpAddr2Bytes (RemoteAddr c))]))"
proof -
  let ?src = "tcpAddr2Bytes (RemoteAddr c)"
  let ?w = "\<lparr>w_cancel = v, w_exit = nextChan st, w_devid = did, w_srcAddr = ?src,
             w_conn = conn_handle c\<rparr>"
  have "\<exists>st'. doHttpProxy brk c st = Inr (st', Some ?w) \<and>
          httpProxyCons st' did \<noteq> None \<and> conEntry st' did ?src = Some (conn_handle c) \<and>
          chanClosed st' (nextChan st)"
    using assms
    by (cases "req_upgrade req = ''websocket''")
       (simp_all add: doHttpProxy_def Let_def registerCon_def makeChan_def emit_def conEntry_def
          HttpProxyWriter_WriteRequest_def Write_fold pipelineLoop_run websocketLoop_run)
  then obtain st' where run: "doHttpProxy brk c st = Inr (st', Some ?w)"
    and ent: "httpProxyCons st' did \<noteq> None" "conEntry st' did ?src = Some (conn_handle c)"
    and ex: "chanClosed st' (nextChan st)"
    by blast
  have ne: "watcher_runs ?w st' \<noteq> []" using ex by (simp add: watcher_runs_def)
  have each: "conEntry st'' did ?src = None \<and>
          (\<exists>closes. set closes \<subseteq> {ConnClose (conn_handle c)} \<and>
             trace st'' = trace st' @ closes @ [ConsDelete did ?src])"
    if "st'' \<in> set (watcher_runs ?w st')" for st''
  proof -
    from that obtain sc where s: "st'' = watcher_after sc ?w st'"
      by (auto simp: watcher_runs_def split: if_splits)
    have "conEntry st'' did ?src = None"
      using watcher_after_removes [of sc ?w st'] by (simp add: s)
    moreover have "trace st'' = trace st' @
        (if sc = CancelFired then [ConnClose (conn_handle c)] else []) @ [ConsDelete did ?src]"
      using watcher_after_trace [of st' ?w sc] ent(1) by (simp add: s)
    ultimately show ?thesis
      by (intro conjI exI [of _ "if sc = CancelFired then [ConnClose (conn_handle c)] else []"])
         auto
  qed
  show ?thesis using run ent(2) ne each by blast
qed

text \<open>When the session id is not stored, the handler returns after having registered the
  connection, without a watcher: nothing is left that would remove the entry.\<close>

lemma doHttpProxy_unknown_session:
  assumes "conn_requests c = req # reqs"
    and "Cookie req ''rtty-http-devid'' = Some did"
    and "devices brk did = Some dv"
    and "Cookie req ''rtty-http-sid'' = Some sid"
    and "httpProxySessions st sid = None"
  shows "\<exists>st'. doHttpProxy brk c st = Inr (st', None) \<and>
           conEntry st' did (tcpAddr2Bytes (RemoteAddr c)) = Some (conn_handle c) \<and>
           trace st' = trace st @ [ConsStore did (tcpAddr2Bytes (RemoteAddr c)) (conn_handle c),
                                   ConnClose (conn_handle c)]"
  using assms
  by (simp add: doHttpProxy_def Let_def registerCon_def makeChan_def emit_def conEntry_def)

text \<open>C1, at the failing input: a first request with a known device and a session cookie
  whose id is not in the Session Registry. The handler returns with the entry for
  (dev3, source) still in the Endpoint Registry, no watcher started, and no \<^verbatim>\<open>Delete\<close>
  in its trace.\<close>

theorem doHttpProxy_unknown_session_keeps_entry:
  "snd (projr (doHttpProxy brk_demo (conn_demo [req_demo ''dev3'' ''stale'' []] []) st_sess)) = None \<and>
   conEntry (fst (projr (doHttpProxy brk_demo (conn_demo [req_demo ''dev3'' ''stale'' []] []) st_sess)))
     ''dev3'' src_demo = Some 9 \<and>
   trace (fst (projr (doHttpProxy brk_demo (conn_demo [req_demo ''dev3'' ''stale'' []] []) st_sess))) =
     [ConsStore ''dev3'' src_demo 9, ConnClose 9]"
  by (simp add: demo_eval)

text \<open>C3, at the failing input: a first request without the destination cookie, so that
  the destination is \<^verbatim>\<open>localhost\<close>, which fails the validation. The handler does not
  abort: it registers the connection, starts the watcher and pushes the request in a frame
  whose destination identifier is empty.\<close>

theorem doHttpProxy_invalid_destination_forwards:
  "cookieDestAddr req_nodest = ''localhost'' \<and>
   httpProxyVaildAddr ''localhost'' = Inl ''invalid IPv4 Addr'' \<and>
   snd (projr (doHttpProxy brk_demo (conn_demo [req_nodest] []) st_sess)) =
     Some \<lparr>w_cancel = 0, w_exit = 1, w_devid = ''dev3'', w_srcAddr = src_demo, w_conn = 9\<rparr> \<and>
   trace (fst (projr (doHttpProxy brk_demo (conn_demo [req_nodest] []) st_sess))) =
     [ConsStore ''dev3'' src_demo 9,
      SinkPush \<lparr>devid = ''dev3'', data = src_demo @ [] @ [71, 69, 84]\<rparr>,
      ChanClose 1, ConnClose 9]"
  by (simp add: demo_eval httpProxyVaildAddr_localhost)

subsection \<open>The outbound frame\<close>

text \<open>The writer's frames have the layout of the specification.\<close>

lemma HttpProxyWriter_Write_frame:
  "HttpProxyWriter_Write rw p st =
     emit (SinkPush \<lparr>devid = dev_id (dev rw),
                     data = spec_outboundFrame (dev_proto (dev rw) > 3) (https rw)
                              (srcAddr rw) (destAddr rw) p\<rparr>) st"
  by (simp add: HttpProxyWriter_Write_def spec_outboundFrame_def)

text \<open>C4, at the failing input: a device of protocol version 4, which takes the scheme
  flag, and a WebSocket upgrade followed by one read of one byte. The frame of the request
  starts with the flag byte; the frame of the raw relay does not, and is not the frame of
  the specification.\<close>

theorem doHttpProxy_raw_relay_frame_lacks_flag:
  "trace (fst (projr (doHttpProxy brk_demo
      (conn_demo [req_demo ''dev4'' ''sid1'' ''websocket''] [[97]]) st_sess))) =
     [ConsStore ''dev4'' src_demo 9,
      SinkPush \<lparr>devid = ''dev4'', data = [0] @ src_demo @ dst_demo @ [71, 69, 84]\<rparr>,
      SinkPush \<lparr>devid = ''dev4'', data = src_demo @ dst_demo @ [97]\<rparr>,
      ChanClose 1, ConnClose 9] \<and>
   spec_outboundFrame True False src_demo dst_demo [97] = [0] @ src_demo @ dst_demo @ [97] \<and>
   src_demo @ dst_demo @ [97] \<noteq> spec_outboundFrame True False src_demo dst_demo [97]"
  by (simp add: demo_eval spec_outboundFrame_def src_demo_def)

subsection \<open>The redirect handler\<close>

lemma createSession_facts:
  "httpProxySessions (createSession sid st) = (httpProxySessions st)(sid \<mapsto> nextChan st)"
  "chanClosed (createSession sid st) = (chanClosed st)(nextChan st := False)"
  "trace (createSession sid st) = trace st @ [SessStore sid (nextChan st)]"
  "nextChan (createSession sid st) = Suc (nextChan st)"
  by (simp_all add: createSession_def makeChan_def emit_def)

lemma invalidateSession_stored:
  assumes "httpProxySessions st sid = Some v" "\<not> chanClosed st v"
  shows "\<exists>mid. invalidateSession (Some sid) st = Inr mid \<and>
           httpProxySessions mid = (httpProxySessions st)(sid := None) \<and>
           chanClosed mid = (chanClosed st)(v := True) \<and>
           nextChan mid = nextChan st \<and>
           trace mid = trace st @ [ChanClose v, SessDelete sid]"
  using assms by (simp add: invalidateSession_def closeChan_def emit_def)

lemma httpProxyRedirect_302:
  assumes "httpProxyRedirect br out c st = Inr (st', r)" "status r = 302"
  shows "\<exists>mid. invalidateSession (cookie_sid c) st = Inr mid \<and>
           st' = createSession (GenUniqueID out) mid \<and>
           map_of (set_cookies r) ''rtty-http-sid'' = Some (GenUniqueID out)"
  using assms
  by (auto simp: httpProxyRedirect_def bare_status_def Let_def split: sum.splits option.splits)

text \<open>C9: take a redirect request that succeeds (status 302), and a second one, also
  passing the checks, whose session cookie is the one the first response set. Then the
  second call returns, and what it does to the Session Registry is, in this order: close the
  first session's channel, delete the first session, store the new session with a new
  channel. In the state between the invalidation and the creation the first session's
  channel is closed and its id is no longer stored.\<close>

theorem httpProxyRedirect_invalidates_first:
  assumes first: "httpProxyRedirect br out1 c1 st0 = Inr (st1, r1)" "status r1 = 302"
    and cookie: "cookie_sid c2 = map_of (set_cookies r1) ''rtty-http-sid''"
    and valid: "httpProxyVaildAddr (param_addr c2) = Inr a" "url_Parse out2 = Some path"
      "devices br (param_devid c2) = Some d"
  shows "\<exists>st2 r2 mid ch1 ch2.
           httpProxyRedirect br out2 c2 st1 = Inr (st2, r2) \<and> status r2 = 302 \<and>
           httpProxySessions st1 (GenUniqueID out1) = Some ch1 \<and> \<not> chanClosed st1 ch1 \<and>
           invalidateSession (cookie_sid c2) st1 = Inr mid \<and>
           chanClosed mid ch1 \<and> httpProxySessions mid (GenUniqueID out1) = None \<and>
           st2 = createSession (GenUniqueID out2) mid \<and>
           trace st2 = trace st1 @ [ChanClose ch1, SessDelete (GenUniqueID out1),
                                    SessStore (GenUniqueID out2) ch2] \<and>
           ch2 \<noteq> ch1 \<and> chanClosed st2 ch1 \<and> \<not> chanClosed st2 ch2 \<and>
           httpProxySessions st2 (GenUniqueID out2) = Some ch2"
proof -
  let ?sid1 = "GenUniqueID out1" and ?sid2 = "GenUniqueID out2"
  from httpProxyRedirect_302 [OF first] obtain mid0 where
    m0: "invalidateSession (cookie_sid c1) st0 = Inr mid0"
    and st1: "st1 = createSession ?sid1 mid0"
    and ck: "map_of (set_cookies r1) ''rtty-http-sid'' = Some ?sid1"
    by blast
  let ?ch1 = "nextChan mid0"
  have s1: "httpProxySessions st1 ?sid1 = Some ?ch1" and o1: "\<not> chanClosed st1 ?ch1"
    by (simp_all add: st1 createSession_facts)
  from invalidateSession_stored [OF s1 o1] obtain mid where
    mid: "invalidateSession (Some ?sid1) st1 = Inr mid"
    and ms: "httpProxySessions mid = (httpProxySessions st1)(?sid1 := None)"
    and mc: "chanClosed mid = (chanClosed st1)(?ch1 := True)"
    and mn: "nextChan mid = nextChan st1"
    and mt: "trace mid = trace st1 @ [ChanClose ?ch1, SessDelete ?sid1]"
    by blast
  let ?st2 = "createSession ?sid2 mid"
  let ?r2 = "\<lparr>status = 302,
              set_cookies = [(''rtty-http-sid'', ?sid2), (''rtty-http-devid'', param_devid c2),
                             (''rtty-http-proto'', param_proto c2),
                             (''rtty-http-destaddr'', param_addr c2)],
              location = redirectLocation (cfg br) (request_host c2) path (time_Now_Unix out2)\<rparr>"
  have c2: "cookie_sid c2 = Some ?sid1" using cookie ck by simp
  have run: "httpProxyRedirect br out2 c2 st1 = Inr (?st2, ?r2)"
    using valid mid by (simp add: httpProxyRedirect_def c2 Let_def)
  have n1: "nextChan st1 = Suc ?ch1" by (simp add: st1 createSession_facts)
  have tr: "trace ?st2 =
      trace st1 @ [ChanClose ?ch1, SessDelete ?sid1, SessStore ?sid2 (nextChan st1)]"
    by (simp add: createSession_facts mt mn)
  have "nextChan st1 \<noteq> ?ch1" using n1 by simp
  moreover have "chanClosed ?st2 ?ch1" using n1 by (simp add: createSession_facts mc mn)
  moreover have "\<not> chanClosed ?st2 (nextChan st1)" by (simp add: createSession_facts mn)
  moreover have "httpProxySessions ?st2 ?sid2 = Some (nextChan st1)"
    by (simp add: createSession_facts mn)
  moreover have "chanClosed mid ?ch1" by (simp add: mc)
  moreover have "httpProxySessions mid ?sid1 = None" by (simp add: ms)
  ultimately show ?thesis
    using run s1 o1 mid tr c2
    by (intro exI [of _ ?st2] exI [of _ ?r2] exI [of _ mid] exI [of _ ?ch1]
          exI [of _ "nextChan st1"]) simp
qed

lemma httpProxyVaildAddr_demo:
  "httpProxyVaildAddr ''192.168.1.1:8080'' = Inr ([192, 168, 1, 1], 8080)"
  by (simp add: httpProxyVaildAddr_def SplitHostPort_def LastIndexByte_def
        IndexByte_def ParseIP_def parseIPv4Fields_def isDigit_def digitVal_def v4InV6Prefix_def
        To4_def Atoi_def uint16_def)

lemma redirectLocation_demo:
  "redirectLocation (cfg brk_demo) ''broker.example:5913'' (''/index.html'', ''a=1'') 1700000000 =
     ''http://broker.example:5914/index.html?_=1700000000&a=1''"
  by (simp add: redirectLocation_def brk_demo_def SplitHostPort_def LastIndexByte_def
        IndexByte_def Itoa_def FormatUint.simps digits_def)

lemma httpProxyRedirect_demo:
  "httpProxyRedirect brk_demo (out_demo ''sid1'') (ctx_demo None) st_empty =
     Inr (createSession ''sid1'' st_empty,
          \<lparr>status = 302,
           set_cookies = [(''rtty-http-sid'', ''sid1''), (''rtty-http-devid'', ''dev3''),
                          (''rtty-http-proto'', ''http''),
                          (''rtty-http-destaddr'', ''192.168.1.1:8080'')],
           location = ''http://broker.example:5914/index.html?_=1700000000&a=1''\<rparr>)"
proof -
  have "cfg brk_demo = \<lparr>HttpProxyRedirURL = [], HttpProxyProtocol = [], HttpProxyPort = 5914\<rparr>"
    by (simp add: brk_demo_def)
  with redirectLocation_demo show ?thesis
    by (simp add: httpProxyRedirect_def out_demo_def ctx_demo_def httpProxyVaildAddr_demo
          invalidateSession_def brk_demo_def Let_def)
qed

theorem httpProxyRedirect_invalidates_first_witness:
  "\<exists>st2 r2 mid ch1 ch2.
     httpProxyRedirect brk_demo (out_demo ''sid2'') (ctx_demo (Some ''sid1''))
       (createSession ''sid1'' st_empty) = Inr (st2, r2) \<and> status r2 = 302 \<and>
     httpProxySessions (createSession ''sid1'' st_empty) (GenUniqueID (out_demo ''sid1'')) = Some ch1 \<and>
     \<not> chanClosed (createSession ''sid1'' st_empty) ch1 \<and>
     invalidateSession (cookie_sid (ctx_demo (Some ''sid1''))) (createSession ''sid1'' st_empty) = Inr mid \<and>
     chanClosed mid ch1 \<and> httpProxySessions mid (GenUniqueID (out_demo ''sid1'')) = None \<and>
     st2 = createSession (GenUniqueID (out_demo ''sid2'')) mid \<and>
     trace st2 = trace (createSession ''sid1'' st_empty) @
        [ChanClose ch1, SessDelete (GenUniqueID (out_demo ''sid1'')),
         SessStore (GenUniqueID (out_demo ''sid2'')) ch2] \<and>
     ch2 \<noteq> ch1 \<and> chanClosed st2 ch1 \<and> \<not> chanClosed st2 ch2 \<and>
     httpProxySessions st2 (GenUniqueID (out_demo ''sid2'')) = Some ch2"
proof (rule httpProxyRedirect_invalidates_first)
  show "httpProxyRedirect brk_demo (out_demo ''sid1'') (ctx_demo None) st_empty =
     Inr (createSession ''sid1'' st_empty,
          \<lparr>status = 302,
           set_cookies = [(''rtty-http-sid'', ''sid1''), (''rtty-http-devid'', ''dev3''),
                          (''rtty-http-proto'', ''http''),
                          (''rtty-http-destaddr'', ''192.168.1.1:8080'')],
           location = ''http://broker.example:5914/index.html?_=1700000000&a=1''\<rparr>)"
    by (rule httpProxyRedirect_demo)
  show "status \<lparr>status = 302,
           set_cookies = [(''rtty-http-sid'', ''sid1''), (''rtty-http-devid'', ''dev3''),
                          (''rtty-http-proto'', ''http''),
                          (''rtty-http-destaddr'', ''192.168.1.1:8080'')],
           location = ''http://broker.example:5914/index.html?_=1700000000&a=1''\<rparr> = 302"
    by simp
  show "cookie_sid (ctx_demo (Some ''sid1'')) =
      map_of (set_cookies \<lparr>status = 302,
           set_cookies = [(''rtty-http-sid'', ''sid1''), (''rtty-http-devid'', ''dev3''),
                          (''rtty-http-proto'', ''http''),
                          (''rtty-http-destaddr'', ''192.168.1.1:8080'')],
           location = ''http://broker.example:5914/index.html?_=1700000000&a=1''\<rparr>)
        ''rtty-http-sid''"
    by (simp add: ctx_demo_def)
  show "httpProxyVaildAddr (param_addr (ctx_demo (Some ''sid1''))) = Inr ([192, 168, 1, 1], 8080)"
    by (simp add: ctx_demo_def httpProxyVaildAddr_demo)
  show "url_Parse (out_demo ''sid2'') = Some (''/index.html'', ''a=1'')"
    by (simp add: out_demo_def)
  show "devices brk_demo (param_devid (ctx_demo (Some ''sid1''))) =
      Some \<lparr>dev_id = ''dev3'', dev_proto = 3\<rparr>"
    by (simp add: ctx_demo_def brk_demo_def)
qed

subsection \<open>Decimal text and the split of host and port\<close>

lemma below_ten: "n < (10::nat) \<Longrightarrow> n \<in> {0, 1, 2, 3, 4, 5, 6, 7, 8, 9}"
  by auto

lemma digits_nth:
  assumes "n < 10"
  shows "isDigit (digits ! n)" and "digitVal (digits ! n) = n"
  using below_ten [OF assms] by (auto simp: digits_def isDigit_def digitVal_def)

lemma isDigit_not_special:
  assumes "isDigit c"
  shows "c \<noteq> CHR ''.''" "c \<noteq> CHR '':''" "c \<noteq> CHR ''[''" "c \<noteq> CHR '']''" "c \<noteq> CHR ''%''"
    "c \<noteq> CHR ''+''" "c \<noteq> CHR ''-''"
  using assms by (auto simp: isDigit_def)

lemma FormatUint_digits: "c \<in> set (FormatUint n) \<Longrightarrow> isDigit c"
proof (induction n rule: FormatUint.induct)
  case (1 n)
  then show ?case
    by (cases "n < 10") (auto simp: FormatUint.simps [of n] digits_nth)
qed

lemma FormatUint_nonempty: "FormatUint n \<noteq> []"
  by (simp add: FormatUint.simps [of n])

lemma FormatUint_hd: "isDigit (hd (FormatUint n))"
  using FormatUint_digits [of "hd (FormatUint n)" n] FormatUint_nonempty [of n] by simp

lemma FormatUint_last: "isDigit (last (FormatUint n))"
  using FormatUint_digits [of "last (FormatUint n)" n] FormatUint_nonempty [of n] by simp

lemma FormatUint_length: "0 < k \<Longrightarrow> n < 10 ^ k \<Longrightarrow> length (FormatUint n) \<le> k"
proof (induction k arbitrary: n)
  case 0
  then show ?case by simp
next
  case (Suc k)
  show ?case
  proof (cases "n < 10")
    case True
    then show ?thesis by (simp add: FormatUint.simps [of n])
  next
    case False
    then have k: "0 < k" using Suc.prems by (cases k) auto
    have "n div 10 < 10 ^ k" using Suc.prems by (simp add: less_mult_imp_div_less mult.commute)
    from Suc.IH [OF k this] False show ?thesis by (simp add: FormatUint.simps [of n])
  qed
qed

lemma Atoi_fast_append:
  "Atoi_fast (xs @ ys) n = (case Atoi_fast xs n of None \<Rightarrow> None | Some m \<Rightarrow> Atoi_fast ys m)"
  by (induction xs arbitrary: n) auto

lemma Atoi_fast_FormatUint: "Atoi_fast (FormatUint n) 0 = Some n"
proof (induction n rule: FormatUint.induct)
  case (1 n)
  show ?case
  proof (cases "n < 10")
    case True
    then show ?thesis by (simp add: FormatUint.simps [of n] digits_nth)
  next
    case False
    with 1 have "Atoi_fast (FormatUint (n div 10)) 0 = Some (n div 10)" by simp
    with False show ?thesis
      by (simp add: FormatUint.simps [of n] Atoi_fast_append digits_nth)
  qed
qed

lemma Atoi_FormatUint:
  assumes "n < 10 ^ 18"
  shows "Atoi (FormatUint n) = (int n, None)"
proof -
  have len: "length (FormatUint n) < 19" using FormatUint_length [of 18 n] assms by simp
  have pos: "0 < length (FormatUint n)" using FormatUint_nonempty [of n] by simp
  have "FormatUint n ! 0 = hd (FormatUint n)"
    using FormatUint_nonempty [of n] by (simp add: hd_conv_nth)
  then have sg: "FormatUint n ! 0 \<noteq> CHR ''-''" "FormatUint n ! 0 \<noteq> CHR ''+''"
    using isDigit_not_special [OF FormatUint_hd [of n]] by simp_all
  show ?thesis using len pos sg by (simp add: Atoi_def Atoi_fast_FormatUint)
qed

lemma LastIndexByte_none: "c \<notin> set s \<Longrightarrow> LastIndexByte s c = None"
  by (simp add: LastIndexByte_def)

lemma LastIndexByte_split:
  assumes "c \<notin> set ps"
  shows "LastIndexByte (h @ c # ps) c = Some (length h)"
proof -
  have "takeWhile (\<lambda>x. x \<noteq> c) (xs @ c # ys) = xs" if "c \<notin> set xs" for xs ys
    using that by (induction xs) auto
  from this [of "rev ps" "rev h"] assms
  have "takeWhile (\<lambda>x. x \<noteq> c) (rev ps @ c # rev h) = rev ps" by simp
  then show ?thesis by (simp add: LastIndexByte_def)
qed

lemma SplitHostPort_no_colon: "CHR '':'' \<notin> set s \<Longrightarrow> isl (SplitHostPort s)"
  by (simp add: SplitHostPort_def LastIndexByte_none)

lemma SplitHostPort_plain:
  assumes "h \<noteq> []" "CHR '':'' \<notin> set h" "CHR ''['' \<notin> set h" "CHR '']'' \<notin> set h"
    and "CHR '':'' \<notin> set ps" "CHR ''['' \<notin> set ps" "CHR '']'' \<notin> set ps"
  shows "SplitHostPort (h @ CHR '':'' # ps) = Inr (h, ps)"
proof -
  have "(h @ CHR '':'' # ps) ! 0 = hd h" using assms(1) by (simp add: nth_append hd_conv_nth)
  moreover have "hd h \<noteq> CHR ''[''" using assms(1,3) by (cases h) auto
  ultimately show ?thesis
    using assms by (simp add: SplitHostPort_def LastIndexByte_split)
qed


subsection \<open>IPv4 literals are accepted\<close>

lemma parseIPv4Fields_loop_number:
  "n \<le> 255 \<Longrightarrow>
   parseIPv4Fields_loop (FormatUint n @ rest) prev 0 pos 0 flds =
   parseIPv4Fields_loop rest (Some (last (FormatUint n))) n pos (length (FormatUint n)) flds"
proof (induction n arbitrary: rest rule: FormatUint.induct)
  case (1 n)
  show ?case
  proof (cases "n < 10")
    case True
    then show ?thesis using 1(2) by (simp add: FormatUint.simps [of n] digits_nth)
  next
    case False
    let ?q = "n div 10" and ?c = "digits ! (n mod 10)"
    have f: "FormatUint n = FormatUint ?q @ [?c]" using False by (simp add: FormatUint.simps [of n])
    have q: "?q \<le> 255" "?q \<noteq> 0" using 1(2) False by auto
    have "parseIPv4Fields_loop (FormatUint n @ rest) prev 0 pos 0 flds =
          parseIPv4Fields_loop (FormatUint ?q @ ?c # rest) prev 0 pos 0 flds"
      by (simp add: f)
    also have "\<dots> = parseIPv4Fields_loop (?c # rest) (Some (last (FormatUint ?q))) ?q pos
                        (length (FormatUint ?q)) flds"
      using 1(1) [OF False q(1)] by simp
    also have "\<dots> = parseIPv4Fields_loop rest (Some ?c) n pos (length (FormatUint ?q) + 1) flds"
      using q 1(2) by (simp add: digits_nth)
    finally show ?thesis by (simp add: f)
  qed
qed


lemma last_digit_not_dot: "last (FormatUint n) \<noteq> CHR ''.''"
  using isDigit_not_special(1) [OF FormatUint_last [of n]] by simp

lemma dot_not_digit: "\<not> isDigit CHR ''.''"
  by (simp add: isDigit_def)

lemma parseIPv4Fields_literal:
  assumes "a \<le> 255" "b \<le> 255" "c \<le> 255" "d \<le> 255"
  shows "parseIPv4Fields (ipv4Literal a b c d) = Some [of_nat a, of_nat b, of_nat c, of_nat d]"
proof -
  have ne: "FormatUint b @ r \<noteq> []" for b r using FormatUint_nonempty [of b] by simp
  show ?thesis
    unfolding parseIPv4Fields_def ipv4Literal_def
    using assms
    by (simp add: parseIPv4Fields_loop_number dot_not_digit last_digit_not_dot ne
        FormatUint_nonempty
        parseIPv4Fields_loop_number [where rest = "[]", simplified])
qed

lemma ParseAddr_scan_digits_dot:
  assumes "\<And>c. c \<in> set ds \<Longrightarrow> isDigit c"
  shows "ParseAddr_scan s (ds @ CHR ''.'' # rest) =
           map_option (\<lambda>f. (v4InV6Prefix @ f, [])) (parseIPv4Fields s)"
  using assms
proof (induction ds)
  case Nil
  then show ?case by simp
next
  case (Cons x xs)
  then have "isDigit x" by simp
  from isDigit_not_special [OF this] Cons show ?case by simp
qed

lemma ParseIP_literal:
  assumes "a \<le> 255" "b \<le> 255" "c \<le> 255" "d \<le> 255"
  shows "ParseIP (ipv4Literal a b c d) = Some (v4InV6Prefix @ [of_nat a, of_nat b, of_nat c, of_nat d])"
proof -
  have "ParseAddr_scan (ipv4Literal a b c d) (FormatUint a @ CHR ''.'' # (FormatUint b @ ''.'' @ FormatUint c @ ''.'' @ FormatUint d))
      = map_option (\<lambda>f. (v4InV6Prefix @ f, [])) (parseIPv4Fields (ipv4Literal a b c d))"
    by (rule ParseAddr_scan_digits_dot) (rule FormatUint_digits)
  then show ?thesis
    using parseIPv4Fields_literal [OF assms] by (simp add: ParseIP_def ipv4Literal_def)
qed


lemma ipv4Literal_chars: "x \<in> set (ipv4Literal a b c d) \<Longrightarrow> isDigit x \<or> x = CHR ''.''"
  by (auto simp: ipv4Literal_def dest: FormatUint_digits)

lemma ipv4Literal_no_special:
  "CHR '':'' \<notin> set (ipv4Literal a b c d)" "CHR ''['' \<notin> set (ipv4Literal a b c d)"
  "CHR '']'' \<notin> set (ipv4Literal a b c d)" "ipv4Literal a b c d \<noteq> []"
proof -
  show "CHR '':'' \<notin> set (ipv4Literal a b c d)"
    using ipv4Literal_chars [of "CHR '':''" a b c d] by (auto simp: isDigit_def)
  show "CHR ''['' \<notin> set (ipv4Literal a b c d)"
    using ipv4Literal_chars [of "CHR ''[''" a b c d] by (auto simp: isDigit_def)
  show "CHR '']'' \<notin> set (ipv4Literal a b c d)"
    using ipv4Literal_chars [of "CHR '']''" a b c d] by (auto simp: isDigit_def)
  show "ipv4Literal a b c d \<noteq> []"
    using FormatUint_nonempty [of a] by (simp add: ipv4Literal_def)
qed

lemma FormatUint_no_special:
  "CHR '':'' \<notin> set (FormatUint p)" "CHR ''['' \<notin> set (FormatUint p)" "CHR '']'' \<notin> set (FormatUint p)"
  using FormatUint_digits [of "CHR '':''" p] FormatUint_digits [of "CHR ''[''" p]
    FormatUint_digits [of "CHR '']''" p]
  by (auto simp: isDigit_def)

lemma To4_mapped: "To4 (v4InV6Prefix @ [a, b, c, d]) = Some [a, b, c, d]"
  by (simp add: To4_def v4InV6Prefix_def)

lemma Atoi_80: "Atoi ''80'' = (80, None)"
  by (simp add: Atoi_def isDigit_def digitVal_def)

lemma byte_of_nat_mod: "(of_nat p :: byte) = of_nat (p mod 256)"
  by (simp add: word_of_nat_eq_iff take_bit_eq_mod)

lemma httpProxyVaildAddr_literal:
  assumes "a < 256" "b < 256" "c < 256" "d < 256"
  shows "httpProxyVaildAddr (ipv4Literal a b c d) = Inr ([of_nat a, of_nat b, of_nat c, of_nat d], 80)"
proof -
  have le: "a \<le> 255" "b \<le> 255" "c \<le> 255" "d \<le> 255" using assms by simp_all
  obtain e where "SplitHostPort (ipv4Literal a b c d) = Inl e"
    using SplitHostPort_no_colon [OF ipv4Literal_no_special(1), of a b c d]
    by (cases "SplitHostPort (ipv4Literal a b c d)") auto
  then show ?thesis
    by (simp add: httpProxyVaildAddr_def ParseIP_literal [OF le] To4_mapped Atoi_80 uint16_def)
qed

lemma httpProxyVaildAddr_literal_port:
  assumes "a < 256" "b < 256" "c < 256" "d < 256" "p < 10 ^ 18"
  shows "httpProxyVaildAddr (ipv4Literal a b c d @ CHR '':'' # FormatUint p) =
           Inr ([of_nat a, of_nat b, of_nat c, of_nat d], uint16 (int p))"
proof -
  have le: "a \<le> 255" "b \<le> 255" "c \<le> 255" "d \<le> 255" using assms by simp_all
  have "SplitHostPort (ipv4Literal a b c d @ CHR '':'' # FormatUint p) =
          Inr (ipv4Literal a b c d, FormatUint p)"
    by (rule SplitHostPort_plain) (simp_all add: ipv4Literal_no_special FormatUint_no_special)
  then show ?thesis
    by (simp add: httpProxyVaildAddr_def ParseIP_literal [OF le] To4_mapped
        Atoi_FormatUint [OF assms(5)])
qed

text \<open>C5: for the IPv4 literal with octets a, b, c, d, the destination identifier is the
  four octets followed by 0, 80 (port 80 by default) when no port is given, and followed by
  the two bytes of the port, high byte first, when it is followed by a colon and a port
  below 65536 in decimal.\<close>

theorem genDestAddr_ipv4_literal:
  assumes "a < 256" "b < 256" "c < 256" "d < 256"
  shows "genDestAddr (ipv4Literal a b c d) = [of_nat a, of_nat b, of_nat c, of_nat d, 0, 80] \<and>
         (p < 65536 \<longrightarrow>
            genDestAddr (ipv4Literal a b c d @ '':'' @ FormatUint p) =
              [of_nat a, of_nat b, of_nat c, of_nat d, of_nat (p div 256), of_nat (p mod 256)])"
proof (intro conjI impI)
  show "genDestAddr (ipv4Literal a b c d) = [of_nat a, of_nat b, of_nat c, of_nat d, 0, 80]"
    using PutUint16_uint16 [of 80]
    by (simp add: genDestAddr_def httpProxyVaildAddr_literal [OF assms] copy_into_zeroed_def uint16_def)
next
  assume p: "p < 65536"
  then have p18: "p < 10 ^ 18" by simp
  have "int p div 256 = int (p div 256)" by simp
  then have "(word_of_int (int p div 256) :: byte) = of_nat (p div 256)"
    by (simp only: of_int_of_nat_eq)
  then have "PutUint16 (uint16 (int p)) = [of_nat (p div 256), of_nat (p mod 256)]"
    using byte_of_nat_mod [of p] by (simp add: PutUint16_uint16)
  then show "genDestAddr (ipv4Literal a b c d @ '':'' @ FormatUint p) =
      [of_nat a, of_nat b, of_nat c, of_nat d, of_nat (p div 256), of_nat (p mod 256)]"
    by (simp add: genDestAddr_def httpProxyVaildAddr_literal_port [OF assms p18] copy_into_zeroed_def)
qed



lemma FormatUint_demo:
  "FormatUint 192 = ''192''" "FormatUint 168 = ''168''" "FormatUint (Suc 0) = ''1''"
  "FormatUint 8080 = ''8080''"
  by (simp_all add: FormatUint.simps [of "numeral k" for k] FormatUint.simps [of "Suc 0"]
      digits_def)

theorem genDestAddr_ipv4_literal_witness:
  "(192::nat) < 256 \<and> (168::nat) < 256 \<and> (1::nat) < 256 \<and> (8080::nat) < 65536 \<and>
   genDestAddr ''192.168.1.1:8080'' = [0xC0, 0xA8, 0x01, 0x01, 0x1F, 0x90] \<and>
   genDestAddr ''192.168.1.1'' = [0xC0, 0xA8, 0x01, 0x01, 0x00, 0x50]"
  using genDestAddr_ipv4_literal [of 192 168 1 1 8080]
  by (simp add: ipv4Literal_def FormatUint_demo)


subsection \<open>What the validation accepts\<close>

lemma char_of_digit_codes:
  "char_of (48::nat) = CHR ''0''" "char_of (49::nat) = CHR ''1''" "char_of (50::nat) = CHR ''2''"
  "char_of (51::nat) = CHR ''3''" "char_of (52::nat) = CHR ''4''" "char_of (53::nat) = CHR ''5''"
  "char_of (54::nat) = CHR ''6''" "char_of (55::nat) = CHR ''7''" "char_of (56::nat) = CHR ''8''"
  "char_of (57::nat) = CHR ''9''"
  by (simp_all add: char_of_def bit_Suc_0_iff)

lemma char_by_code: "of_char c = (n::nat) \<Longrightarrow> c = char_of n"
  by auto

lemma isDigit_in_digits: "isDigit c \<Longrightarrow> c \<in> set digits"
proof -
  assume "isDigit c"
  then have r: "48 \<le> (of_char c :: nat)" "(of_char c :: nat) \<le> 57"
    by (simp_all add: isDigit_def)
  have "n = 48 \<or> n = 49 \<or> n = 50 \<or> n = 51 \<or> n = 52 \<or> n = 53 \<or> n = 54 \<or> n = 55 \<or>
        n = 56 \<or> n = 57" if "48 \<le> n" "n \<le> 57" for n :: nat
    using that by arith
  from this [OF r] show ?thesis
    by (elim disjE) (drule char_by_code, simp add: char_of_digit_codes digits_def)+
qed

lemma isDigit_digits:
  assumes "isDigit c"
  shows "digitVal c < 10" and "digits ! digitVal c = c"
proof -
  show "digitVal c < 10" using assms by (auto simp: digitVal_def isDigit_def)
  show "digits ! digitVal c = c"
    using isDigit_in_digits [OF assms] by (auto simp: digits_def digitVal_def)
qed


lemma FormatUint_snoc:
  assumes "isDigit c" "0 < v"
  shows "FormatUint (v * 10 + digitVal c) = FormatUint v @ [c]"
proof -
  let ?n = "v * 10 + digitVal c"
  have d: "digitVal c < 10" by (rule isDigit_digits(1) [OF assms(1)])
  then have "?n div 10 = v" "?n mod 10 = digitVal c" "\<not> ?n < 10" using assms(2) by auto
  then show ?thesis
    using isDigit_digits(2) [OF assms(1)] by (simp add: FormatUint.simps [of ?n])
qed

lemma FormatUint_single:
  assumes "isDigit c"
  shows "FormatUint (digitVal c) = [c]"
  using isDigit_digits [OF assms] by (simp add: FormatUint.simps [of "digitVal c"])

lemma octet_run:
  assumes "parseIPv4Fields_loop s prev val pos digLen flds = Some f"
    and "val \<le> 255"
    and "cur = [] \<Longrightarrow> digLen = 0 \<and> val = 0 \<and> (prev = None \<or> prev = Some CHR ''.'')"
    and "cur \<noteq> [] \<Longrightarrow> cur = FormatUint val \<and> digLen = length cur \<and> prev = Some (last cur)"
    and "cur \<noteq> [] \<or> s \<noteq> []"
  shows "\<exists>ds rest v. s = ds @ rest \<and> cur @ ds = FormatUint v \<and> v \<le> 255 \<and>
           parseIPv4Fields_loop rest (Some (last (FormatUint v))) v pos
             (length (FormatUint v)) flds = Some f \<and>
           (rest = [] \<or> hd rest = CHR ''.'')"
  using assms
proof (induction s arbitrary: prev val digLen cur)
  case Nil
  then have "cur \<noteq> []" by simp
  with Nil(4) have "cur = FormatUint val" "digLen = length cur" "prev = Some (last cur)"
    by auto
  with Nil(1,2) show ?case
    by (intro exI [of _ "[]"] exI [of _ val]) simp
next
  case (Cons c cs)
  show ?case
  proof (cases "isDigit c")
    case True
    let ?v = "val * 10 + digitVal c"
    from Cons.prems(1) True have ok: "\<not> (digLen = 1 \<and> val = 0)" "?v \<le> 255"
      and run: "parseIPv4Fields_loop cs (Some c) ?v pos (digLen + 1) flds = Some f"
      by (auto simp: Let_def split: if_splits)
    have fm: "FormatUint ?v = cur @ [c]" and dl: "digLen = length cur"
    proof -
      show "FormatUint ?v = cur @ [c]"
      proof (cases "cur = []")
        case True
        with Cons.prems(3) have "val = 0" by simp
        with True show ?thesis using FormatUint_single [OF \<open>isDigit c\<close>] by simp
      next
        case False
        with Cons.prems(4) have c: "cur = FormatUint val" "digLen = length cur" by auto
        have "val \<noteq> 0"
        proof
          assume "val = 0"
          then have "length cur = 1" using c(1) by (simp add: FormatUint.simps [of 0])
          with ok(1) c(2) \<open>val = 0\<close> show False by simp
        qed
        then show ?thesis using FormatUint_snoc [OF \<open>isDigit c\<close>, of val] c(1) by simp
      qed
      show "digLen = length cur" using Cons.prems(3,4) by (cases "cur = []") auto
    qed
    have "\<exists>ds rest v. cs = ds @ rest \<and> (cur @ [c]) @ ds = FormatUint v \<and> v \<le> 255 \<and>
           parseIPv4Fields_loop rest (Some (last (FormatUint v))) v pos
             (length (FormatUint v)) flds = Some f \<and>
           (rest = [] \<or> hd rest = CHR ''.'')"
      by (rule Cons.IH [OF run ok(2)]) (simp_all add: fm dl)
    then obtain ds rest v where "cs = ds @ rest" "(cur @ [c]) @ ds = FormatUint v" "v \<le> 255"
      "parseIPv4Fields_loop rest (Some (last (FormatUint v))) v pos
             (length (FormatUint v)) flds = Some f" "rest = [] \<or> hd rest = CHR ''.''"
      by blast
    then show ?thesis
      by (intro exI [of _ "c # ds"] exI [of _ rest] exI [of _ v]) simp
  next
    case False
    then have dot: "c = CHR ''.''" using Cons.prems(1) by (auto split: if_splits)
    with Cons.prems(1) False have "prev \<noteq> None" "prev \<noteq> Some CHR ''.''"
      by (auto split: if_splits)
    then have "cur \<noteq> []" using Cons.prems(3) by auto
    with Cons.prems(4) have "cur = FormatUint val" "digLen = length cur" "prev = Some (last cur)"
      by auto
    with Cons.prems(1,2) dot show ?thesis
      by (intro exI [of _ "[]"] exI [of _ "c # cs"] exI [of _ val]) simp
  qed
qed

lemma dot_step:
  assumes "parseIPv4Fields_loop (CHR ''.'' # cs) prev v pos n flds = Some f"
  shows "cs \<noteq> [] \<and> pos \<noteq> 3 \<and>
         parseIPv4Fields_loop cs (Some CHR ''.'') 0 (pos + 1) 0 (flds[pos := of_nat v]) = Some f"
  using assms by (auto simp: isDigit_def split: if_splits)


lemma octet_start:
  assumes "parseIPv4Fields_loop s prev 0 pos 0 flds = Some f"
    and "prev = None \<or> prev = Some CHR ''.''" and "s \<noteq> []"
  shows "\<exists>v rest. s = FormatUint v @ rest \<and> v \<le> 255 \<and>
           parseIPv4Fields_loop rest (Some (last (FormatUint v))) v pos
             (length (FormatUint v)) flds = Some f \<and>
           (rest = [] \<or> (\<exists>cs. rest = CHR ''.'' # cs))"
proof -
  from octet_run [OF assms(1), of "[]"] assms(2,3)
  obtain ds rest v where "s = ds @ rest" "ds = FormatUint v" "v \<le> 255"
    "parseIPv4Fields_loop rest (Some (last (FormatUint v))) v pos
       (length (FormatUint v)) flds = Some f" "rest = [] \<or> hd rest = CHR ''.''"
    by auto
  moreover from this have "rest = [] \<or> (\<exists>cs. rest = CHR ''.'' # cs)" by (cases rest) auto
  ultimately show ?thesis by blast
qed

lemma octet_then_dot:
  assumes "parseIPv4Fields_loop s prev 0 pos 0 flds = Some f"
    and "prev = None \<or> prev = Some CHR ''.''" and "s \<noteq> []" and "pos < 3"
  shows "\<exists>v cs. s = FormatUint v @ CHR ''.'' # cs \<and> v \<le> 255 \<and> cs \<noteq> [] \<and>
           parseIPv4Fields_loop cs (Some CHR ''.'') 0 (pos + 1) 0 (flds[pos := of_nat v]) = Some f"
proof -
  from octet_start [OF assms(1-3)] obtain v rest where
    s: "s = FormatUint v @ rest" and v: "v \<le> 255"
    and run: "parseIPv4Fields_loop rest (Some (last (FormatUint v))) v pos
                (length (FormatUint v)) flds = Some f"
    and rest: "rest = [] \<or> (\<exists>cs. rest = CHR ''.'' # cs)"
    by blast
  have "rest \<noteq> []" using run assms(4) by auto
  with rest obtain cs where r: "rest = CHR ''.'' # cs" by blast
  from dot_step [OF run [unfolded r]] s v r show ?thesis by blast
qed

lemma parseIPv4Fields_sound:
  assumes "parseIPv4Fields s = Some f"
  shows "\<exists>a b c d. a \<le> 255 \<and> b \<le> 255 \<and> c \<le> 255 \<and> d \<le> 255 \<and> s = ipv4Literal a b c d \<and>
           f = [of_nat a, of_nat b, of_nat c, of_nat d]"
proof -
  have run: "parseIPv4Fields_loop s None 0 0 0 [0, 0, 0, 0] = Some f"
    using assms by (simp add: parseIPv4Fields_def)
  then have "s \<noteq> []" by auto
  from octet_then_dot [OF run _ this] obtain a s1 where
    A: "s = FormatUint a @ CHR ''.'' # s1" "a \<le> 255" "s1 \<noteq> []"
    and r1: "parseIPv4Fields_loop s1 (Some CHR ''.'') 0 (Suc 0) 0 [of_nat a, 0, 0, 0] = Some f"
    by auto
  from octet_then_dot [OF r1 _ A(3)] obtain b s2 where
    B: "s1 = FormatUint b @ CHR ''.'' # s2" "b \<le> 255" "s2 \<noteq> []"
    and r2: "parseIPv4Fields_loop s2 (Some CHR ''.'') 0 (Suc (Suc 0)) 0 [of_nat a, of_nat b, 0, 0] = Some f"
    by auto
  from octet_then_dot [OF r2 _ B(3)] obtain c s3 where
    C: "s2 = FormatUint c @ CHR ''.'' # s3" "c \<le> 255" "s3 \<noteq> []"
    and r3: "parseIPv4Fields_loop s3 (Some CHR ''.'') 0 (Suc (Suc (Suc 0))) 0
           [of_nat a, of_nat b, of_nat c, 0] = Some f"
    by auto
  from octet_start [OF r3 _ C(3)] obtain d rest where
    D: "s3 = FormatUint d @ rest" "d \<le> 255"
    and r4: "parseIPv4Fields_loop rest (Some (last (FormatUint d))) d (Suc (Suc (Suc 0)))
               (length (FormatUint d)) [of_nat a, of_nat b, of_nat c, 0] = Some f"
    and rest: "rest = [] \<or> (\<exists>cs. rest = CHR ''.'' # cs)"
    by auto
  have "rest = []"
  proof (rule ccontr)
    assume "rest \<noteq> []"
    with rest obtain cs where "rest = CHR ''.'' # cs" by blast
    with dot_step [of cs _ d "Suc (Suc (Suc 0))" _ _ f] r4 show False by simp
  qed
  with r4 have "f = [of_nat a, of_nat b, of_nat c, of_nat d]" by simp
  moreover have "s = ipv4Literal a b c d"
    using A(1) B(1) C(1) D(1) \<open>rest = []\<close> by (simp add: ipv4Literal_def)
  ultimately show ?thesis using A(2) B(2) C(2) D(2) by blast
qed

lemma ParseAddr_scan_no_colon:
  "ParseAddr_scan s t = Some r \<Longrightarrow> CHR '':'' \<notin> set t \<Longrightarrow>
   \<exists>f. parseIPv4Fields s = Some f \<and> r = (v4InV6Prefix @ f, [])"
  by (induction t) (auto split: if_splits)

lemma ParseIP_no_colon:
  assumes "ParseIP h = Some ip" "CHR '':'' \<notin> set h"
  shows "\<exists>a b c d. a < 256 \<and> b < 256 \<and> c < 256 \<and> d < 256 \<and> h = ipv4Literal a b c d \<and>
           ip = v4InV6Prefix @ [of_nat a, of_nat b, of_nat c, of_nat d]"
proof -
  from assms(1) obtain r where r: "ParseAddr_scan h h = Some r" "fst r = ip"
    by (auto simp: ParseIP_def split: option.splits if_splits)
  from ParseAddr_scan_no_colon [OF r(1) assms(2)] obtain f where
    f: "parseIPv4Fields h = Some f" "r = (v4InV6Prefix @ f, [])" by blast
  from parseIPv4Fields_sound [OF f(1)] obtain a b c d where
    "a \<le> 255" "b \<le> 255" "c \<le> 255" "d \<le> 255" "h = ipv4Literal a b c d"
    "f = [of_nat a, of_nat b, of_nat c, of_nat d]" by blast
  with r(2) f(2) show ?thesis
    by (intro exI [of _ a] exI [of _ b] exI [of _ c] exI [of _ d]) auto
qed

lemma httpProxyVaildAddr_hostPart:
  "isl (httpProxyVaildAddr addr) =
     (case ParseIP (hostPart addr) of None \<Rightarrow> True | Some ip \<Rightarrow> To4 ip = None)"
  by (auto simp: httpProxyVaildAddr_def hostPart_def split: sum.splits option.splits prod.splits)

text \<open>C6, amended: validation returns an error exactly for the inputs whose host part (the
  host before the last colon when the input splits as host and port, the whole input
  otherwise) is neither an IPv4 dotted-decimal literal nor the IPv6 literal of an
  IPv4-mapped address. So every non-numeric hostname and every other IPv6 literal is
  rejected.\<close>

theorem httpProxyVaildAddr_error_iff:
  "isl (httpProxyVaildAddr addr) =
     (\<not> isIPv4Literal (hostPart addr) \<and> \<not> isMappedIPv6Literal (hostPart addr))"
proof (cases "CHR '':'' \<in> set (hostPart addr)")
  case True
  then have "\<not> isIPv4Literal (hostPart addr)"
    using ipv4Literal_no_special(1) by (auto simp: isIPv4Literal_def)
  with True show ?thesis
    by (auto simp: httpProxyVaildAddr_hostPart isMappedIPv6Literal_def split: option.splits)
next
  case False
  then have m: "\<not> isMappedIPv6Literal (hostPart addr)" by (simp add: isMappedIPv6Literal_def)
  show ?thesis
  proof (cases "isIPv4Literal (hostPart addr)")
    case True
    then obtain a b c d where lt: "a < 256" "b < 256" "c < 256" "d < 256"
      and h: "hostPart addr = ipv4Literal a b c d"
      by (auto simp: isIPv4Literal_def)
    from lt have "a \<le> 255" "b \<le> 255" "c \<le> 255" "d \<le> 255" by simp_all
    then have "ParseIP (hostPart addr) =
        Some (v4InV6Prefix @ [of_nat a, of_nat b, of_nat c, of_nat d])"
      using ParseIP_literal [of a b c d] h by simp
    with True show ?thesis by (simp add: httpProxyVaildAddr_hostPart To4_mapped)
  next
    case nl: False
    have "ParseIP (hostPart addr) = None"
    proof (cases "ParseIP (hostPart addr)")
      case (Some ip)
      from ParseIP_no_colon [OF Some False] nl show ?thesis
        by (auto simp: isIPv4Literal_def)
    qed simp
    with nl m show ?thesis by (simp add: httpProxyVaildAddr_hostPart)
  qed
qed


lemmas parse_eval =
  ParseIP_def parseIPv6_def parseIPv6_loop.simps IndexByte_def parseIPv4Fields_def isDigit_def
  digitVal_def ishex_def unhex_def replicate_step

text \<open>C6, as stated, fails: the IPv6 literal \<^verbatim>\<open>::ffff:192.168.1.1\<close> is parsed as the
  IPv4-mapped address, which has a 4-byte form, and the validation accepts it.\<close>

theorem httpProxyVaildAddr_ipv6_counterexample:
  "ParseIP ''::ffff:192.168.1.1'' =
     Some [0, 0, 0, 0, 0, 0, 0, 0, 0, 0, 255, 255, 192, 168, 1, 1] \<and>
   httpProxyVaildAddr ''::ffff:192.168.1.1'' = Inr ([192, 168, 1, 1], 80)"
proof -
  have p: "ParseIP ''::ffff:192.168.1.1'' =
     Some [0, 0, 0, 0, 0, 0, 0, 0, 0, 0, 255, 255, 192, 168, 1, 1]"
    by (simp add: parse_eval)
  then show ?thesis
    by (simp add: httpProxyVaildAddr_def SplitHostPort_def LastIndexByte_def To4_def
        v4InV6Prefix_def Atoi_def isDigit_def digitVal_def uint16_def)
qed

lemma not_literal_by_char:
  assumes "x \<in> set h" "\<not> isDigit x" "x \<noteq> CHR ''.''"
  shows "\<not> isIPv4Literal h"
  using assms ipv4Literal_chars [of x] by (auto simp: isIPv4Literal_def)

theorem httpProxyVaildAddr_error_iff_witness:
  "isl (httpProxyVaildAddr ''localhost'') \<and> isl (httpProxyVaildAddr ''2001:db8::68'') \<and>
   isl (httpProxyVaildAddr ''[::1]:8080'')"
proof -
  have h: "hostPart ''localhost'' = ''localhost''" "hostPart ''2001:db8::68'' = ''2001:db8::68''"
    "hostPart ''[::1]:8080'' = ''::1''"
    by (simp_all add: hostPart_def SplitHostPort_def LastIndexByte_def IndexByte_def)
  have l: "\<not> isIPv4Literal ''localhost''" "\<not> isIPv4Literal ''2001:db8::68''"
    "\<not> isIPv4Literal ''::1''"
    by (rule not_literal_by_char [of "CHR ''l''"], simp_all add: isDigit_def)
       (rule not_literal_by_char [of "CHR '':''"], simp_all add: isDigit_def)+
  have m: "\<not> isMappedIPv6Literal ''localhost''" "\<not> isMappedIPv6Literal ''2001:db8::68''"
    "\<not> isMappedIPv6Literal ''::1''"
    by (simp_all add: isMappedIPv6Literal_def parse_eval To4_def v4InV6Prefix_def)
  show ?thesis
    using httpProxyVaildAddr_error_iff [of "''localhost''"]
      httpProxyVaildAddr_error_iff [of "''2001:db8::68''"]
      httpProxyVaildAddr_error_iff [of "''[::1]:8080''"]
    by (simp add: h l m)
qed

end
